theory Spec2Isabelle
  imports Complex_Main
begin

section \<open>Python values, exceptions and the world a script runs in\<close>

text \<open>
  The repository is a set of Jupyter notebooks and two report templates. The notebooks are
  straight-line Python scripts over the \<^verbatim>\<open>pygsti\<close> library, so a script is modelled as a
  function that threads a world (the file system and the trace of the external operations
  performed so far) and that stops at the first exception. Library functions are fields of
  a record of functions: a script is a function of the library it runs against. Calls of
  \<^verbatim>\<open>print\<close> and \<^verbatim>\<open>time.time\<close> touch neither the file system nor any object and are left
  out; the dictionary lookups that happen inside a \<^verbatim>\<open>print\<close> argument are kept, because
  they can raise. A Python float literal is represented by the rational it is written as.
\<close>

type_synonym label = string
type_synonym gatestring = "label list"
type_synonym rule = "gatestring \<times> gatestring"

datatype pyerror =
    NameError string
  | KeyError string
  | FileNotFoundError string
  | ValueError string
  | RuntimeError string

text \<open>An \<^verbatim>\<open>mpi4py\<close> communicator, as one process sees it.\<close>

record comm =
  Get_rank :: nat
  Get_size :: nat

datatype pyval =
    PyNone
  | PyBool bool
  | PyInt int
  | PyFloat rat
  | PyStr string
  | PyTuple "pyval list"
  | PyDict "(string \<times> pyval) list"
  | PyGateStrings "gatestring list"
  | PyComm comm

type_synonym kwargs = "(string \<times> pyval) list"

text \<open>The value of a Python variable that holds either \<^verbatim>\<open>None\<close> or a communicator.\<close>

definition py_of_comm :: "comm option \<Rightarrow> pyval" where
  "py_of_comm c = (case c of None \<Rightarrow> PyNone | Some k \<Rightarrow> PyComm k)"

text \<open>
  An event is one external operation of a script: a call into a library with the keyword
  arguments written at the call site and whether the call returned normally, a call of
  \<^verbatim>\<open>comm.Get_rank()\<close>, or the opening of a file for reading or for writing.
\<close>

datatype event =
    Lib string kwargs bool
  | GetRank comm
  | OpenRead string
  | OpenWrite string

record world =
  files :: "string \<rightharpoonup> string"
  trace :: "event list"

definition initial_world :: "(string \<rightharpoonup> string) \<Rightarrow> world" where
  "initial_world fs = \<lparr>files = fs, trace = []\<rparr>"

type_synonym 'a py = "world \<Rightarrow> (pyerror + 'a) \<times> world"

definition py_return :: "'a \<Rightarrow> 'a py" where
  "py_return x w = (Inr x, w)"

definition py_raise :: "pyerror \<Rightarrow> 'a py" where
  "py_raise e w = (Inl e, w)"

definition py_bind :: "'a py \<Rightarrow> ('a \<Rightarrow> 'b py) \<Rightarrow> 'b py" where
  "py_bind m f w = (case m w of (Inl e, w') \<Rightarrow> (Inl e, w') | (Inr x, w') \<Rightarrow> f x w')"

definition record_event :: "event \<Rightarrow> world \<Rightarrow> world" where
  "record_event e w = w\<lparr>trace := trace w @ [e]\<rparr>"

definition returned :: "pyerror + 'a \<Rightarrow> bool" where
  "returned r = (case r of Inl e \<Rightarrow> False | Inr x \<Rightarrow> True)"

text \<open>A call into a library: its outcome is what the library gives, and the call is traced.\<close>

definition libcall :: "string \<Rightarrow> kwargs \<Rightarrow> pyerror + 'a \<Rightarrow> 'a py" where
  "libcall name kw r w = (r, record_event (Lib name kw (returned r)) w)"

definition comm_Get_rank :: "comm \<Rightarrow> nat py" where
  "comm_Get_rank c w = (Inr (Get_rank c), record_event (GetRank c) w)"

text \<open>\<^verbatim>\<open>open(path, "rb")\<close> followed by reading the whole file.\<close>

definition open_rb :: "string \<Rightarrow> string py" where
  "open_rb path w =
     (case files w path of
        None \<Rightarrow> (Inl (FileNotFoundError path), w)
      | Some content \<Rightarrow> (Inr content, record_event (OpenRead path) w))"

text \<open>\<^verbatim>\<open>open(path, "wb")\<close> creates the file or truncates it.\<close>

definition open_wb :: "string \<Rightarrow> unit py" where
  "open_wb path w = (Inr (), record_event (OpenWrite path) (w\<lparr>files := (files w)(path \<mapsto> [])\<rparr>))"

definition file_write :: "string \<Rightarrow> string \<Rightarrow> unit py" where
  "file_write path s w =
     (Inr (), w\<lparr>files := (files w)(path \<mapsto> (case files w path of None \<Rightarrow> s | Some old \<Rightarrow> old @ s))\<rparr>)"

text \<open>Subscripting a dictionary raises \<^verbatim>\<open>KeyError\<close> on a missing key.\<close>

definition getitem :: "(string \<rightharpoonup> 'a) \<Rightarrow> string \<Rightarrow> 'a py" where
  "getitem d k = (case d k of None \<Rightarrow> py_raise (KeyError k) | Some v \<Rightarrow> py_return v)"

text \<open>
  A global name used in a function body is resolved when the body runs, against the names
  the module has bound by then; an unbound name raises \<^verbatim>\<open>NameError\<close>.
\<close>

definition lookup_global :: "string list \<Rightarrow> string \<Rightarrow> unit py" where
  "lookup_global globals name =
     (if name \<in> set globals then py_return () else py_raise (NameError name))"


section \<open>Gate strings, replacement rules and data sets\<close>

text \<open>
  Modelled from the spec: the rule matching inside
  \<^verbatim>\<open>pygsti.construction.manipulate_gatestring\<close>, which is not among the sources. A rule
  \<^verbatim>\<open>(find, replace)\<close> applies at a position when the labels \<^verbatim>\<open>find\<close> occur there; of
  several rules the first in the list wins; a rule with an empty left-hand side never
  applies.
\<close>

fun first_match :: "rule list \<Rightarrow> gatestring \<Rightarrow> rule option" where
  "first_match [] s = None"
| "first_match ((pat, repl) # rs) s =
     (if pat \<noteq> [] \<and> take (length pat) s = pat then Some (pat, repl)
      else first_match rs s)"

text \<open>
  Modelled from the spec: \<^verbatim>\<open>pygsti.construction.manipulate_gatestring\<close> is called by the
  context-dependence notebook but is not among the sources. The notebook describes a rule
  \<^verbatim>\<open>(find, replace)\<close> as replacing the labels \<^verbatim>\<open>find\<close> by the labels \<^verbatim>\<open>replace\<close> wherever they
  occur (\<^verbatim>\<open>GxGi => GxGi2\<close>: "replace Gi with Gi2 whenever it follows Gx";
  \<^verbatim>\<open>((Gi2,), (Gi,))\<close>: "returns all Gi2's to Gi's"). The string is scanned from the left; at
  each position the first rule whose left-hand side occurs there is applied and the scan
  goes on behind the replaced labels.
\<close>

fun manipulate_gatestring :: "gatestring \<Rightarrow> rule list \<Rightarrow> gatestring" where
  "manipulate_gatestring [] sequenceRules = []"
| "manipulate_gatestring (g # gs) sequenceRules =
     (case first_match sequenceRules (g # gs) of
        None \<Rightarrow> g # manipulate_gatestring gs sequenceRules
      | Some (pat, repl) \<Rightarrow>
          repl @ manipulate_gatestring (drop (length pat - 1) gs) sequenceRules)"

text \<open>
  Modelled from the spec: \<^verbatim>\<open>manipulate_gatestring_list\<close> (not among the sources) applies the
  rules to every gate string of a list.
\<close>

definition manipulate_gatestring_list :: "gatestring list \<Rightarrow> rule list \<Rightarrow> gatestring list" where
  "manipulate_gatestring_list gatestringList sequenceRules =
     map (\<lambda>gs. manipulate_gatestring gs sequenceRules) gatestringList"

text \<open>The two rule lists of the context-dependence notebook.\<close>

definition rules :: "rule list" where
  "rules = [([''Gx'', ''Gi''], [''Gx'', ''Gi2''])]"

definition rev_rules :: "rule list" where
  "rev_rules = [([''Gi2''], [''Gi''])]"

text \<open>
  A \<^verbatim>\<open>DataSet\<close> (library class, not among the sources) holds one row of outcome counts per
  gate string.
\<close>

type_synonym 'cnt dataset = "(gatestring \<times> 'cnt) list"

text \<open>
  Modelled from the spec: \<^verbatim>\<open>DataSet.process_gate_strings\<close> is not among the sources. It
  relabels the rows by running every gate string through the given function and keeps
  the counts ("Revert all the Gi2 labels back to Gi, so that the DataSet doesn't contain
  any Gi2 labels").
\<close>

definition process_gate_strings ::
  "'cnt dataset \<Rightarrow> (gatestring \<Rightarrow> gatestring) \<Rightarrow> 'cnt dataset" where
  "process_gate_strings ds processor_fn = map (\<lambda>(gstr, row). (processor_fn gstr, row)) ds"

text \<open>The gate labels that occur in the gate strings of a data set.\<close>

definition gate_labels_of :: "'cnt dataset \<Rightarrow> label set" where
  "gate_labels_of ds = (\<Union>(gstr, row) \<in> set ds. set gstr)"

section \<open>The notebook "How to generate error bars for 2Q-GST"\<close>

text \<open>
  The results object is unpickled from a file. The notebook reads and writes
  \<^verbatim>\<open>results.estimates['default'].parameters['memLimit']\<close>, so these two dictionaries are
  explicit; everything else an estimate or the results object holds is opaque.
\<close>

record 'e estimate =
  parameters :: "string \<rightharpoonup> pyval"
  estimate_rest :: 'e

record ('e, 'r) results =
  estimates :: "string \<rightharpoonup> 'e estimate"
  results_rest :: 'r

text \<open>
  The library operations of this notebook. The confidence-region factory returned by
  \<^verbatim>\<open>add_confidence_region_factory\<close> is owned by the estimate it was added to: the methods
  called on it update that estimate in place, so they are functions on the estimate.
\<close>

record ('e, 'r, 'crf) crlib =
  pickle_load :: "string \<Rightarrow> pyerror + ('e, 'r) results"
  pickle_dump :: "('e, 'r) results \<Rightarrow> pyerror + string"
  add_confidence_region_factory ::
    "'e estimate \<Rightarrow> string \<Rightarrow> string \<Rightarrow> pyerror + ('crf \<times> 'e estimate)"
  compute_hessian :: "'crf \<Rightarrow> kwargs \<Rightarrow> 'e estimate \<Rightarrow> pyerror + 'e estimate"
  project_hessian :: "'crf \<Rightarrow> string \<Rightarrow> 'e estimate \<Rightarrow> pyerror + 'e estimate"

definition errorbars_in :: string where
  "errorbars_in = ''example_files/easy_2q_results.pkl''"

definition errorbars_out :: string where
  "errorbars_out = ''example_files/easy_2q_results_withCI.pkl''"

text \<open>\<^verbatim>\<open>2.5*(1024.0)**3\<close>: every factor and the product are exact binary floats.\<close>

definition memLimit_2q :: pyval where
  "memLimit_2q = PyFloat (5 / 2 * 1024 ^ 3)"

text \<open>
  First code cell: \<^verbatim>\<open>comm = None\<close>, load the results, print the old memory limit, set the
  new one, print it. The cell leaves \<^verbatim>\<open>comm\<close> and \<^verbatim>\<open>results\<close> to the later cells.
\<close>

definition errorbars_cell1 ::
  "('e, 'r, 'crf) crlib \<Rightarrow> (comm option \<times> ('e, 'r) results) py" where
  "errorbars_cell1 L =
     py_bind (open_rb errorbars_in) (\<lambda>f.
     py_bind (libcall ''pickle.load'' [] (pickle_load L f)) (\<lambda>res.
     py_bind (getitem (estimates res) ''default'') (\<lambda>shown.
     py_bind (getitem (estimates res) ''default'') (\<lambda>est.
     let res' = res\<lparr>estimates := (estimates res)(''default'' \<mapsto>
                   est\<lparr>parameters := (parameters est)(''memLimit'' \<mapsto> memLimit_2q)\<rparr>)\<rparr>
     in py_bind (getitem (estimates res') ''default'') (\<lambda>est'.
        py_bind (getitem (parameters est') ''memLimit'') (\<lambda>shown'.
        py_return (None, res')))))))"

text \<open>
  Second code cell: add the factory for \<^verbatim>\<open>('go0', 'final')\<close> to the default estimate,
  compute the Hessian, project it.
\<close>

definition errorbars_cell2 ::
  "('e, 'r, 'crf) crlib \<Rightarrow> comm option \<Rightarrow> ('e, 'r) results \<Rightarrow> ('e, 'r) results py" where
  "errorbars_cell2 L c res =
     py_bind (getitem (estimates res) ''default'') (\<lambda>est.
     py_bind (libcall ''add_confidence_region_factory'' []
                (add_confidence_region_factory L est ''go0'' ''final'')) (\<lambda>(crfact, est1).
     py_bind (libcall ''crfact.compute_hessian'' [(''comm'', py_of_comm c)]
                (compute_hessian L crfact [(''comm'', py_of_comm c)] est1)) (\<lambda>est2.
     py_bind (libcall ''crfact.project_hessian'' []
                (project_hessian L crfact ''intrinsic error'' est2)) (\<lambda>est3.
     py_return (res\<lparr>estimates := (estimates res)(''default'' \<mapsto> est3)\<rparr>)))))"

text \<open>Third code cell: write the results back to a file.\<close>

definition errorbars_cell3 :: "('e, 'r, 'crf) crlib \<Rightarrow> ('e, 'r) results \<Rightarrow> unit py" where
  "errorbars_cell3 L res =
     py_bind (open_wb errorbars_out) (\<lambda>f.
     py_bind (libcall ''pickle.dump'' [] (pickle_dump L res)) (\<lambda>bytes.
     file_write errorbars_out bytes))"

text \<open>The cells run in order; the run stops at the first cell that raises.\<close>

definition errorbars_notebook :: "('e, 'r, 'crf) crlib \<Rightarrow> unit py" where
  "errorbars_notebook L =
     py_bind (errorbars_cell1 L) (\<lambda>(c, res).
     py_bind (errorbars_cell2 L c res) (\<lambda>res'.
     errorbars_cell3 L res'))"

section \<open>The script "Running germ selection on multiple processors"\<close>

text \<open>
  The library operations the script calls. Gate strings and tuples of gate labels are the
  same thing in the model, so \<^verbatim>\<open>pc.gatestring_list\<close> is the identity.
\<close>

record 'gs germlib =
  std2Q_XYICNOT_gs_target :: 'gs
  germ_gates_keys :: "'gs \<Rightarrow> label list"
  list_all_gatestrings_without_powers_and_cycles ::
    "label list \<Rightarrow> kwargs \<Rightarrow> pyerror + gatestring list"
  list_random_gatestrings_onelen ::
    "label list \<Rightarrow> nat \<Rightarrow> pyval \<Rightarrow> kwargs \<Rightarrow> pyerror + gatestring list"
  remove_duplicates :: "gatestring list \<Rightarrow> pyerror + gatestring list"
  build_up_breadth :: "'gs \<Rightarrow> gatestring list \<Rightarrow> kwargs \<Rightarrow> pyerror + gatestring list"
  pickle_dump_germs :: "gatestring list \<Rightarrow> pyerror + string"

text \<open>
  The names the module has bound when its last statement calls \<^verbatim>\<open>do_greedy_germsel\<close>: the
  imports (\<^verbatim>\<open>print_function\<close>, \<^verbatim>\<open>time\<close>, \<^verbatim>\<open>pygsti\<close>, \<^verbatim>\<open>pc\<close>, \<^verbatim>\<open>std2Q_XYICNOT\<close>,
  \<^verbatim>\<open>germsel\<close>, \<^verbatim>\<open>MPI\<close>) and the assignments. The script has no \<^verbatim>\<open>import pickle\<close>.
\<close>

definition germsel_globals :: "string list" where
  "germsel_globals =
     [''print_function'', ''time'', ''pygsti'', ''pc'', ''std2Q_XYICNOT'', ''germsel'', ''MPI'',
      ''comm'', ''do_greedy_germsel'', ''gs_target'', ''forced_germs'', ''candidate_counts'',
      ''seedStart'']"

text \<open>
  The loop \<^verbatim>\<open>for i,(germLength, count) in enumerate(candidate_counts.items())\<close>; the
  dictionary is given as the list of its items in iteration order.
\<close>

fun candidate_loop ::
  "'gs germlib \<Rightarrow> string list \<Rightarrow> 'gs \<Rightarrow> nat \<Rightarrow> nat \<Rightarrow> (nat \<times> pyval) list \<Rightarrow>
   gatestring list \<Rightarrow> gatestring list py" where
  "candidate_loop L globals gs_target seedStart i [] candidate_germs = py_return candidate_germs"
| "candidate_loop L globals gs_target seedStart i ((germLength, count) # items) candidate_germs =
     py_bind (lookup_global globals ''pc'') (\<lambda>_.
     py_bind
       (if count = PyStr ''all upto''
        then libcall ''pc.list_all_gatestrings_without_powers_and_cycles''
               [(''maxLength'', PyInt (int germLength))]
               (list_all_gatestrings_without_powers_and_cycles L (germ_gates_keys L gs_target)
                  [(''maxLength'', PyInt (int germLength))])
        else libcall ''pc.list_random_gatestrings_onelen''
               [(''seed'', PyInt (int (seedStart + i)))]
               (list_random_gatestrings_onelen L (germ_gates_keys L gs_target) germLength count
                  [(''seed'', PyInt (int (seedStart + i)))]))
       (\<lambda>new. candidate_loop L globals gs_target seedStart (i + 1) items (candidate_germs @ new)))"

definition build_up_breadth_kwargs :: "gatestring list \<Rightarrow> comm option \<Rightarrow> kwargs" where
  "build_up_breadth_kwargs forced_germs c =
     [(''randomizationStrength'', PyFloat (1 / 1000)), (''numCopies'', PyInt 3),
      (''seed'', PyInt 1234), (''gatePenalty'', PyFloat 10), (''scoreFunc'', PyStr ''all''),
      (''tol'', PyFloat (1 / 1000000)), (''threshold'', PyFloat 100000),
      (''pretest'', PyBool False), (''force'', PyGateStrings forced_germs),
      (''verbosity'', PyInt 5), (''comm'', py_of_comm c),
      (''memLimit'', PyFloat (1 / 2 * 1024 ^ 3))]"

text \<open>
  \<^verbatim>\<open>do_greedy_germsel\<close>. In \<^verbatim>\<open>pickle.dump(germs, open(outFilename, "wb"))\<close> the callee
  \<^verbatim>\<open>pickle.dump\<close> is evaluated before the arguments, so the name \<^verbatim>\<open>pickle\<close> is resolved
  before the file is opened.
\<close>

definition do_greedy_germsel ::
  "'gs germlib \<Rightarrow> string list \<Rightarrow> 'gs \<Rightarrow> gatestring list \<Rightarrow> (nat \<times> pyval) list \<Rightarrow> nat \<Rightarrow>
   string \<Rightarrow> comm option \<Rightarrow> gatestring list py" where
  "do_greedy_germsel L globals gs_target forced_germs candidate_counts seedStart outFilename c =
     py_bind (lookup_global globals ''time'') (\<lambda>_.
     py_bind (candidate_loop L globals gs_target seedStart 0 candidate_counts []) (\<lambda>candidate_germs.
     py_bind (lookup_global globals ''pygsti'') (\<lambda>_.
     py_bind (libcall ''pygsti.tools.remove_duplicates'' []
                (remove_duplicates L (forced_germs @ candidate_germs))) (\<lambda>available_germs.
     py_bind (lookup_global globals ''germsel'') (\<lambda>_.
     py_bind (libcall ''germsel.build_up_breadth'' (build_up_breadth_kwargs forced_germs c)
                (build_up_breadth L gs_target available_germs
                   (build_up_breadth_kwargs forced_germs c))) (\<lambda>germs.
     py_bind (case c of None \<Rightarrow> py_return True
              | Some k \<Rightarrow> py_bind (comm_Get_rank k) (\<lambda>r. py_return (r = 0))) (\<lambda>root.
     py_bind (if root
              then py_bind (lookup_global globals ''time'') (\<lambda>_.
                   py_bind (lookup_global globals ''pickle'') (\<lambda>_.
                   py_bind (open_wb outFilename) (\<lambda>f.
                   py_bind (libcall ''pickle.dump'' [] (pickle_dump_germs L germs)) (\<lambda>bytes.
                   file_write outFilename bytes))))
              else py_return ()) (\<lambda>_.
     py_return germs))))))))"

text \<open>
  The module body after the definition: the 2-qubit target, the singleton germs that are
  forced, the candidate counts and the call. \<^verbatim>\<open>c\<close> is \<^verbatim>\<open>MPI.COMM_WORLD\<close> of the process.
\<close>

definition candidate_counts_2Q :: "(nat \<times> pyval) list" where
  "candidate_counts_2Q =
     [(3, PyStr ''all upto''), (4, PyInt 30), (5, PyInt 20), (6, PyInt 20), (7, PyInt 20),
      (8, PyInt 20)]"

definition germsel_script :: "'gs germlib \<Rightarrow> comm \<Rightarrow> gatestring list py" where
  "germsel_script L c =
     (let gs_target = std2Q_XYICNOT_gs_target L;
          forced_germs = map (\<lambda>gl. [gl]) (germ_gates_keys L gs_target)
      in do_greedy_germsel L germsel_globals gs_target forced_germs candidate_counts_2Q 4
           ''germs_EXAMPLE.pkl'' (Some c))"

text \<open>The keyword arguments with which the script calls \<^verbatim>\<open>build_up_breadth\<close>.\<close>

definition germsel_kwargs :: "'gs germlib \<Rightarrow> comm \<Rightarrow> kwargs" where
  "germsel_kwargs L c =
     build_up_breadth_kwargs (map (\<lambda>gl. [gl]) (germ_gates_keys L (std2Q_XYICNOT_gs_target L)))
       (Some c)"

section \<open>The \<^verbatim>\<open>pygsti\<close> operations the GST notebooks call\<close>

text \<open>
  The first argument of \<^verbatim>\<open>make_lsgst_experiment_list\<close> is a gate set in some notebooks and
  the list of its gate labels in others.
\<close>

datatype 'gs gate_label_src = GateSet 'gs | GateLabels "label list"

text \<open>
  Functions of the library that read or write a file are given by the text they parse or
  produce; the script-level wrappers below open the file. \<^verbatim>\<open>create_standard_report\<close> gives
  the files of the report directory it writes.
\<close>

record ('gs, 'gate, 'basis, 'cnt, 'res) pygsti =
  std1Q_XYI_gs_target :: 'gs
  std1Q_XYI_fiducials :: "gatestring list"
  std1Q_XYI_prepStrs :: "gatestring list"
  std1Q_XYI_effectStrs :: "gatestring list"
  std1Q_XYI_germs :: "gatestring list"
  stdQT_XYIMS_gs_target :: 'gs
  stdQT_XYIMS_prepStrs :: "gatestring list"
  stdQT_XYIMS_effectStrs :: "gatestring list"
  stdQT_XYIMS_germs_lite :: "gatestring list"
  gates_keys :: "'gs \<Rightarrow> label list"
  basis :: "'gs \<Rightarrow> 'basis"
  depolarize :: "'gs \<Rightarrow> kwargs \<Rightarrow> pyerror + 'gs"
  set_all_parameterizations :: "'gs \<Rightarrow> string \<Rightarrow> pyerror + 'gs"
  gs_getitem :: "'gs \<Rightarrow> label \<Rightarrow> pyerror + 'gate"
  gs_setitem :: "'gs \<Rightarrow> label \<Rightarrow> 'gate \<Rightarrow> pyerror + 'gs"
  gate_copy :: "'gate \<Rightarrow> pyerror + 'gate"
  gate_depolarize :: "'gate \<Rightarrow> rat \<Rightarrow> pyerror + 'gate"
  gate_rotate :: "'gate \<Rightarrow> rat \<times> rat \<times> rat \<Rightarrow> 'basis \<Rightarrow> pyerror + 'gate"
  make_lsgst_experiment_list ::
    "'gs gate_label_src \<Rightarrow> gatestring list \<Rightarrow> gatestring list \<Rightarrow> gatestring list \<Rightarrow>
     nat list \<Rightarrow> pyerror + gatestring list"
  generate_fake_data ::
    "'gs \<Rightarrow> gatestring list \<Rightarrow> nat \<Rightarrow> string \<Rightarrow> nat \<Rightarrow> pyerror + 'cnt dataset"
  write_dataset :: "'cnt dataset \<Rightarrow> pyerror + string"
  load_dataset :: "string \<Rightarrow> pyerror + 'cnt dataset"
  write_empty_dataset :: "gatestring list \<Rightarrow> string \<Rightarrow> pyerror + string"
  do_long_sequence_gst ::
    "'cnt dataset \<Rightarrow> 'gs \<Rightarrow> gatestring list \<Rightarrow> gatestring list \<Rightarrow> gatestring list \<Rightarrow>
     nat list \<Rightarrow> kwargs \<Rightarrow> pyerror + 'res"
  do_stdpractice_gst ::
    "'cnt dataset \<Rightarrow> 'gs \<Rightarrow> gatestring list \<Rightarrow> gatestring list \<Rightarrow> gatestring list \<Rightarrow>
     nat list \<Rightarrow> kwargs \<Rightarrow> pyerror + 'res"
  pickle_dump_results :: "'res \<Rightarrow> pyerror + string"
  pickle_load_results :: "string \<Rightarrow> pyerror + 'res"
  create_standard_report :: "'res \<Rightarrow> string \<Rightarrow> string \<Rightarrow> kwargs \<Rightarrow> pyerror + (string \<rightharpoonup> string)"

definition lib_writes :: "(string \<rightharpoonup> string) \<Rightarrow> unit py" where
  "lib_writes written w = (Inr (), w\<lparr>files := files w ++ written\<rparr>)"

definition io_write_dataset ::
  "('gs, 'gate, 'basis, 'cnt, 'res) pygsti \<Rightarrow> string \<Rightarrow> 'cnt dataset \<Rightarrow> unit py" where
  "io_write_dataset L filename ds =
     py_bind (libcall ''pygsti.io.write_dataset'' [] (write_dataset L ds)) (\<lambda>text.
     py_bind (open_wb filename) (\<lambda>f. file_write filename text))"

definition io_load_dataset ::
  "('gs, 'gate, 'basis, 'cnt, 'res) pygsti \<Rightarrow> string \<Rightarrow> 'cnt dataset py" where
  "io_load_dataset L filename =
     py_bind (open_rb filename) (\<lambda>text.
     libcall ''pygsti.io.load_dataset'' [] (load_dataset L text))"

definition io_write_empty_dataset ::
  "('gs, 'gate, 'basis, 'cnt, 'res) pygsti \<Rightarrow> string \<Rightarrow> gatestring list \<Rightarrow> string \<Rightarrow> unit py" where
  "io_write_empty_dataset L filename gatestrings header =
     py_bind (libcall ''pygsti.io.write_empty_dataset'' []
                (write_empty_dataset L gatestrings header)) (\<lambda>text.
     py_bind (open_wb filename) (\<lambda>f. file_write filename text))"

definition report_create_standard_report ::
  "('gs, 'gate, 'basis, 'cnt, 'res) pygsti \<Rightarrow> 'res \<Rightarrow> string \<Rightarrow> string \<Rightarrow> kwargs \<Rightarrow> unit py" where
  "report_create_standard_report L res filename title kw =
     py_bind (libcall ''pygsti.report.create_standard_report'' kw
                (create_standard_report L res filename title kw)) lib_writes"

definition maxLengths_1Q :: "nat list" where
  "maxLengths_1Q = [1, 2, 4, 8, 16, 32]"

definition binomial_kwargs :: "nat \<Rightarrow> kwargs" where
  "binomial_kwargs nSamples =
     [(''nSamples'', PyInt (int nSamples)), (''sampleError'', PyStr ''binomial''),
      (''seed'', PyInt 1234)]"

definition depolarize_kwargs :: kwargs where
  "depolarize_kwargs = [(''gate_noise'', PyFloat (1 / 10)), (''spam_noise'', PyFloat (1 / 1000))]"

section \<open>Tutorial "Getting started with pyGSTi and Gate Set Tomography"\<close>

text \<open>First code cell: target, fiducials, germs, simulated data, the empty data template.\<close>

definition getting_started_cell1 ::
  "('gs, 'gate, 'basis, 'cnt, 'res) pygsti \<Rightarrow> (gatestring list \<times> 'cnt dataset) py" where
  "getting_started_cell1 L =
     (let gs_target = std1Q_XYI_gs_target L;
          prep_fiducials = std1Q_XYI_prepStrs L;
          meas_fiducials = std1Q_XYI_effectStrs L;
          germs = std1Q_XYI_germs L;
          maxLengths = maxLengths_1Q
      in py_bind (libcall ''gs_target.depolarize'' depolarize_kwargs
                    (depolarize L gs_target depolarize_kwargs)) (\<lambda>gs_datagen.
         py_bind (libcall ''pygsti.construction.make_lsgst_experiment_list'' []
                    (make_lsgst_experiment_list L (GateSet gs_target) prep_fiducials
                       meas_fiducials germs maxLengths)) (\<lambda>listOfExperiments.
         py_bind (libcall ''pygsti.construction.generate_fake_data'' (binomial_kwargs 1000)
                    (generate_fake_data L gs_datagen listOfExperiments 1000 ''binomial'' 1234))
                 (\<lambda>ds.
         py_bind (io_write_empty_dataset L ''tutorial_files/GettingStartedDataTemplate.txt''
                    listOfExperiments ''## Columns = 1 count, count total'') (\<lambda>_.
         py_return (listOfExperiments, ds))))))"

text \<open>Second code cell: run GST on the data set and create a report.\<close>

definition getting_started_cell2 ::
  "('gs, 'gate, 'basis, 'cnt, 'res) pygsti \<Rightarrow> 'cnt dataset \<Rightarrow> 'res py" where
  "getting_started_cell2 L ds =
     py_bind (libcall ''pygsti.do_stdpractice_gst'' []
                (do_stdpractice_gst L ds (std1Q_XYI_gs_target L) (std1Q_XYI_prepStrs L)
                   (std1Q_XYI_effectStrs L) (std1Q_XYI_germs L) maxLengths_1Q [])) (\<lambda>res.
     py_bind (report_create_standard_report L res ''tutorial_files/gettingStartedReport''
                ''Tutorial0 Example Report'' [(''verbosity'', PyInt 2)]) (\<lambda>_.
     py_return res))"

definition getting_started_notebook ::
  "('gs, 'gate, 'basis, 'cnt, 'res) pygsti \<Rightarrow> (gatestring list \<times> 'cnt dataset \<times> 'res) py" where
  "getting_started_notebook L =
     py_bind (getting_started_cell1 L) (\<lambda>(listOfExperiments, ds).
     py_bind (getting_started_cell2 L ds) (\<lambda>res.
     py_return (listOfExperiments, ds, res)))"

section \<open>Example "qutrit GST"\<close>

text \<open>
  The notebook first builds the target gate set, the fiducials and the germs by hand and
  then rebinds all of them from \<^verbatim>\<open>stdQT_XYIMS\<close> ("Note above construction is now a standard
  qutrit gateset"); the model starts at that rebinding cell. The template written by
  \<^verbatim>\<open>write_empty_dataset\<close>, the simulated data, the GST run and the report follow.
\<close>

definition maxLengths_QT :: "nat list" where
  "maxLengths_QT = [1, 2, 4]"

definition qutrit_gst_kwargs :: kwargs where
  "qutrit_gst_kwargs =
     [(''verbosity'', PyInt 2), (''comm'', PyNone), (''memLimit'', PyInt (3 * 1024 ^ 3)),
      (''modes'', PyStr ''TP,CPTP'')]"

definition qutrit_notebook ::
  "('gs, 'gate, 'basis, 'cnt, 'res) pygsti \<Rightarrow> (gatestring list \<times> 'cnt dataset \<times> 'res) py" where
  "qutrit_notebook L =
     (let gs_target = stdQT_XYIMS_gs_target L;
          fiducialPrep = stdQT_XYIMS_prepStrs L;
          fiducialMeasure = stdQT_XYIMS_effectStrs L;
          germs = stdQT_XYIMS_germs_lite L;
          maxLengths = maxLengths_QT
      in py_bind (libcall ''pygsti.construction.make_lsgst_experiment_list'' []
                    (make_lsgst_experiment_list L (GateLabels (gates_keys L gs_target))
                       fiducialPrep fiducialMeasure germs maxLengths)) (\<lambda>expList.
         py_bind (io_write_empty_dataset L ''example_files/dataTemplate_qutrit_maxL=4.txt'' expList
                    ''## Columns = 0bright count, 1bright count, 2bright count'') (\<lambda>_.
         py_bind (libcall ''gs_target.depolarize'' [(''gate_noise'', PyFloat (5 / 100))]
                    (depolarize L gs_target [(''gate_noise'', PyFloat (5 / 100))])) (\<lambda>gs_datagen.
         py_bind (libcall ''pygsti.construction.generate_fake_data''
                    [(''sampleError'', PyStr ''multinomial''), (''seed'', PyInt 1234)]
                    (generate_fake_data L gs_datagen expList 500 ''multinomial'' 1234)) (\<lambda>DS.
         py_bind (libcall ''pygsti.do_stdpractice_gst'' qutrit_gst_kwargs
                    (do_stdpractice_gst L DS gs_target fiducialPrep fiducialMeasure germs
                       maxLengths qutrit_gst_kwargs)) (\<lambda>res.
         py_bind (report_create_standard_report L res ''example_files/sampleQutritReport''
                    ''Example Qutrit Report''
                    [(''verbosity'', PyInt 3), (''auto_open'', PyBool True)]) (\<lambda>_.
         py_return (expList, DS, res))))))))"

section \<open>Example "Using GST to test for context dependence"\<close>

text \<open>
  Second code cell: the data-generating gate set gets a second idle gate \<^verbatim>\<open>Gi2\<close> (a copy of
  \<^verbatim>\<open>Gi\<close>, depolarized and rotated in place), the experiment list is rewritten by \<^verbatim>\<open>rules\<close>,
  data is generated for the rewritten list, and the gate strings of the data set are
  rewritten back by \<^verbatim>\<open>rev_rules\<close>. The cell leaves the rewritten list and the data set.
\<close>

definition context_cell2 ::
  "('gs, 'gate, 'basis, 'cnt, 'res) pygsti \<Rightarrow> (gatestring list \<times> 'cnt dataset) py" where
  "context_cell2 L =
     (let gs_target = std1Q_XYI_gs_target L;
          fiducials = std1Q_XYI_fiducials L;
          germs = std1Q_XYI_germs L;
          maxLengths = maxLengths_1Q
      in py_bind (libcall ''gs_target.depolarize'' depolarize_kwargs
                    (depolarize L gs_target depolarize_kwargs)) (\<lambda>gs_datagen.
         py_bind (libcall ''gs_datagen.__getitem__'' [] (gs_getitem L gs_datagen ''Gi'')) (\<lambda>gi.
         py_bind (libcall ''copy'' [] (gate_copy L gi)) (\<lambda>gi_copy.
         py_bind (libcall ''gs_datagen.__setitem__'' []
                    (gs_setitem L gs_datagen ''Gi2'' gi_copy)) (\<lambda>gs_datagen1.
         py_bind (libcall ''gs_datagen.__getitem__'' [] (gs_getitem L gs_datagen1 ''Gi2'')) (\<lambda>g.
         py_bind (libcall ''depolarize'' [] (gate_depolarize L g (1 / 10))) (\<lambda>g'.
         py_bind (libcall ''gs_datagen.__setitem__'' []
                    (gs_setitem L gs_datagen1 ''Gi2'' g')) (\<lambda>gs_datagen2.
         py_bind (libcall ''gs_datagen.__getitem__'' [] (gs_getitem L gs_datagen2 ''Gi2'')) (\<lambda>h.
         py_bind (libcall ''rotate'' []
                    (gate_rotate L h (0, 0, 1 / 10) (basis L gs_datagen2))) (\<lambda>h'.
         py_bind (libcall ''gs_datagen.__setitem__'' []
                    (gs_setitem L gs_datagen2 ''Gi2'' h')) (\<lambda>gs_datagen3.
         py_bind (libcall ''pygsti.construction.make_lsgst_experiment_list'' []
                    (make_lsgst_experiment_list L (GateSet gs_target) fiducials fiducials germs
                       maxLengths)) (\<lambda>listOfExperiments.
         py_bind (libcall ''pygsti.construction.manipulate_gatestring_list'' []
                    (Inr (manipulate_gatestring_list listOfExperiments rules)))
                 (\<lambda>listOfExperiments'.
         py_bind (libcall ''pygsti.construction.generate_fake_data'' (binomial_kwargs 10000)
                    (generate_fake_data L gs_datagen3 listOfExperiments' 10000 ''binomial'' 1234))
                 (\<lambda>ds.
         py_bind (libcall ''ds.process_gate_strings'' []
                    (Inr (process_gate_strings ds
                            (\<lambda>gstr. manipulate_gatestring gstr rev_rules)))) (\<lambda>ds'.
         py_return (listOfExperiments', ds'))))))))))))))))"

text \<open>Third code cell: standard GST on the data set, with a TP-constrained target.\<close>

definition context_cell3 ::
  "('gs, 'gate, 'basis, 'cnt, 'res) pygsti \<Rightarrow> 'cnt dataset \<Rightarrow> 'res py" where
  "context_cell3 L ds =
     py_bind (libcall ''gs_target.set_all_parameterizations'' []
                (set_all_parameterizations L (std1Q_XYI_gs_target L) ''TP'')) (\<lambda>gs_target.
     libcall ''pygsti.do_long_sequence_gst'' [(''verbosity'', PyInt 2)]
       (do_long_sequence_gst L ds gs_target (std1Q_XYI_fiducials L) (std1Q_XYI_fiducials L)
          (std1Q_XYI_germs L) maxLengths_1Q [(''verbosity'', PyInt 2)]))"

definition context_notebook ::
  "('gs, 'gate, 'basis, 'cnt, 'res) pygsti \<Rightarrow> (gatestring list \<times> 'cnt dataset \<times> 'res) py" where
  "context_notebook L =
     py_bind (context_cell2 L) (\<lambda>(listOfExperiments, ds).
     py_bind (context_cell3 L ds) (\<lambda>res.
     py_return (listOfExperiments, ds, res)))"

section \<open>Tutorial "Parallel GST using MPI"\<close>

definition mpi_dataset_file :: string where
  "mpi_dataset_file = ''example_files/mpi_example_dataset.txt''"

definition mpi_script_file :: string where
  "mpi_script_file = ''example_files/mpi_example_script.py''"

definition mpi_results_file :: string where
  "mpi_results_file = ''example_files/mpi_example_results.pkl''"

text \<open>First code cell: the data set is simulated and written to a file.\<close>

definition parallel_cell1 ::
  "('gs, 'gate, 'basis, 'cnt, 'res) pygsti \<Rightarrow> (gatestring list \<times> 'cnt dataset) py" where
  "parallel_cell1 L =
     (let gs_target = std1Q_XYI_gs_target L;
          fiducials = std1Q_XYI_fiducials L;
          germs = std1Q_XYI_germs L;
          maxLengths = maxLengths_1Q
      in py_bind (libcall ''gs_target.depolarize'' depolarize_kwargs
                    (depolarize L gs_target depolarize_kwargs)) (\<lambda>gs_datagen.
         py_bind (libcall ''pygsti.construction.make_lsgst_experiment_list'' []
                    (make_lsgst_experiment_list L (GateLabels (gates_keys L gs_target)) fiducials
                       fiducials germs maxLengths)) (\<lambda>listOfExperiments.
         py_bind (libcall ''pygsti.construction.generate_fake_data'' (binomial_kwargs 1000)
                    (generate_fake_data L gs_datagen listOfExperiments 1000 ''binomial'' 1234))
                 (\<lambda>ds.
         py_bind (io_write_dataset L mpi_dataset_file ds) (\<lambda>_.
         py_return (listOfExperiments, ds))))))"

text \<open>Second code cell: the text of the script is written to a file.\<close>

definition dq :: "string \<Rightarrow> string" where
  "dq s = CHR 0x22 # s @ [CHR 0x22]"

definition unlines :: "string list \<Rightarrow> string" where
  "unlines ls = concat (map (\<lambda>l. l @ [CHR 0x0A]) ls)"

definition mpiScript :: string where
  "mpiScript = unlines
     [[],
      ''import time'',
      ''import pygsti'',
      ''from pygsti.construction import std1Q_XYI'',
      [],
      ''#get MPI comm'',
      ''from mpi4py import MPI'',
      ''comm = MPI.COMM_WORLD'',
      [],
      ''print('' @ dq ''Rank %d started'' @ '' % comm.Get_rank())'',
      [],
      ''#define target gateset, fiducials, and germs as before'',
      ''gs_target = std1Q_XYI.gs_target'',
      ''fiducials = std1Q_XYI.fiducials'',
      ''germs = std1Q_XYI.germs'',
      ''maxLengths = [1,2,4,8,16,32]'',
      [],
      ''#tell gauge optimization to weight the gate matrix'',
      ''# elements 100x more heavily than the SPAM vector elements, and'',
      ''# to specifically weight the Gx gate twice as heavily as the other'',
      ''# gates.'',
      ''goParams = {'itemWeights':{'spam': 0.01, 'gates': 1.0, 'Gx': 2.0} }'',
      [],
      ''#Specify a per-core memory limit (useful for larger GST calculations)'',
      ''memLim = 2.1*(1024)**3  # 2.1 GB'',
      [],
      ''#Perform TP-constrained GST'',
      ''gs_target.set_all_parameterizations('' @ dq ''TP'' @ '')'',
      ''    '',
      ''#load the dataset'',
      ''ds = pygsti.io.load_dataset('' @ dq ''example_files/mpi_example_dataset.txt'' @ '')'',
      [],
      ''start = time.time()'',
      ''results = pygsti.do_long_sequence_gst(ds, gs_target, fiducials, fiducials,'',
      ''                                      germs, maxLengths,memLimit=memLim,'',
      ''                                      gaugeOptParams=goParams, comm=comm,'',
      ''                                      verbosity=2)'',
      ''end = time.time()'',
      ''print('' @ dq ''Rank %d finished in %.1fs'' @ '' % (comm.Get_rank(), end-start))'',
      ''if comm.Get_rank() == 0:'',
      ''    import pickle'',
      ''    pickle.dump(results, open('' @ dq ''example_files/mpi_example_results.pkl'' @ '',''
        @ dq ''wb'' @ ''))'']"

definition parallel_cell2 :: "unit py" where
  "parallel_cell2 = py_bind (open_wb mpi_script_file) (\<lambda>f. file_write mpi_script_file mpiScript)"

text \<open>
  The script, as the process with communicator \<^verbatim>\<open>c\<close> (its \<^verbatim>\<open>MPI.COMM_WORLD\<close>) runs it. It
  leaves the data set it loaded and the results.
\<close>

definition mpi_gst_kwargs :: "comm \<Rightarrow> kwargs" where
  "mpi_gst_kwargs c =
     [(''memLimit'', PyFloat (21 / 10 * 1024 ^ 3)),
      (''gaugeOptParams'',
         PyDict [(''itemWeights'',
           PyDict [(''spam'', PyFloat (1 / 100)), (''gates'', PyFloat 1), (''Gx'', PyFloat 2)])]),
      (''comm'', PyComm c), (''verbosity'', PyInt 2)]"

definition mpi_script ::
  "('gs, 'gate, 'basis, 'cnt, 'res) pygsti \<Rightarrow> comm \<Rightarrow> ('cnt dataset \<times> 'res) py" where
  "mpi_script L c =
     py_bind (comm_Get_rank c) (\<lambda>_.
     py_bind (libcall ''gs_target.set_all_parameterizations'' []
                (set_all_parameterizations L (std1Q_XYI_gs_target L) ''TP'')) (\<lambda>gs_target.
     py_bind (io_load_dataset L mpi_dataset_file) (\<lambda>ds.
     py_bind (libcall ''pygsti.do_long_sequence_gst'' (mpi_gst_kwargs c)
                (do_long_sequence_gst L ds gs_target (std1Q_XYI_fiducials L)
                   (std1Q_XYI_fiducials L) (std1Q_XYI_germs L) maxLengths_1Q (mpi_gst_kwargs c)))
             (\<lambda>res.
     py_bind (comm_Get_rank c) (\<lambda>_.
     py_bind (comm_Get_rank c) (\<lambda>r.
     py_bind (if r = 0
              then py_bind (open_wb mpi_results_file) (\<lambda>f.
                   py_bind (libcall ''pickle.dump'' [] (pickle_dump_results L res)) (\<lambda>bytes.
                   file_write mpi_results_file bytes))
              else py_return ()) (\<lambda>_.
     py_return (ds, res))))))))"

text \<open>
  Third code cell: \<^verbatim>\<open>mpiexec -n 3\<close> starts one process per rank. The processes communicate
  only inside the library call, so the model runs them one after another, in rank order,
  on the same file system; a process that raises does not stop the others. The shell
  command never raises in the notebook.
\<close>

fun run_ranks :: "(comm \<Rightarrow> 'a py) \<Rightarrow> comm list \<Rightarrow> world \<Rightarrow> (pyerror + 'a) list \<times> world" where
  "run_ranks script [] w = ([], w)"
| "run_ranks script (c # cs) w =
     (case script c w of (r, w1) \<Rightarrow>
        (case run_ranks script cs w1 of (rs, w2) \<Rightarrow> (r # rs, w2)))"

definition comm_world :: "nat \<Rightarrow> comm list" where
  "comm_world n = map (\<lambda>r. \<lparr>Get_rank = r, Get_size = n\<rparr>) [0..<n]"

definition mpiexec :: "nat \<Rightarrow> (comm \<Rightarrow> 'a py) \<Rightarrow> (pyerror + 'a) list py" where
  "mpiexec n script w = (case run_ranks script (comm_world n) w of (rs, w') \<Rightarrow> (Inr rs, w'))"

text \<open>Fourth code cell: the pickled results are read back and a report is created.\<close>

definition parallel_cell4 :: "('gs, 'gate, 'basis, 'cnt, 'res) pygsti \<Rightarrow> 'res py" where
  "parallel_cell4 L =
     py_bind (open_rb mpi_results_file) (\<lambda>bytes.
     py_bind (libcall ''pickle.load'' [] (pickle_load_results L bytes)) (\<lambda>res.
     py_bind (report_create_standard_report L res ''example_files/mpi_example_brief''
                ''MPI Example Report'' [(''verbosity'', PyInt 2), (''auto_open'', PyBool True)])
             (\<lambda>_.
     py_return res)))"

text \<open>The first three cells, and the whole notebook.\<close>

definition parallel_run ::
  "('gs, 'gate, 'basis, 'cnt, 'res) pygsti \<Rightarrow>
   (gatestring list \<times> 'cnt dataset \<times> (pyerror + 'cnt dataset \<times> 'res) list) py" where
  "parallel_run L =
     py_bind (parallel_cell1 L) (\<lambda>(listOfExperiments, ds).
     py_bind parallel_cell2 (\<lambda>_.
     py_bind (mpiexec 3 (mpi_script L)) (\<lambda>outcomes.
     py_return (listOfExperiments, ds, outcomes))))"

definition parallel_notebook ::
  "('gs, 'gate, 'basis, 'cnt, 'res) pygsti \<Rightarrow>
   (gatestring list \<times> 'cnt dataset \<times> (pyerror + 'cnt dataset \<times> 'res) list \<times> 'res) py" where
  "parallel_notebook L =
     py_bind (parallel_run L) (\<lambda>(listOfExperiments, ds, outcomes).
     py_bind (parallel_cell4 L) (\<lambda>res.
     py_return (listOfExperiments, ds, outcomes, res)))"

section \<open>Tutorial "Algorithms: high-level interface"\<close>

text \<open>
  The further library operations of this tutorial. \<^verbatim>\<open>load_dataset(..., cache=True)\<close> and
  \<^verbatim>\<open>do_long_sequence_gst\<close> called with a file name read the file system themselves, so
  they are functions of the file system and the file name; loading with a cache also
  gives the cache files it writes. The gate set passed as \<^verbatim>\<open>gaugeOptTarget\<close> is a typed
  argument of its own. \<^verbatim>\<open>goparameters_keys res k\<close> is
  \<^verbatim>\<open>res.estimates[k].goparameters.keys()\<close>.
\<close>

record ('gs, 'gate, 'basis, 'cnt, 'res, 'structs) pygsti_drivers =
  "('gs, 'gate, 'basis, 'cnt, 'res) pygsti" +
  load_dataset_cached ::
    "(string \<rightharpoonup> string) \<Rightarrow> string \<Rightarrow> pyerror + 'cnt dataset \<times> (string \<rightharpoonup> string)"
  gs_copy :: "'gs \<Rightarrow> pyerror + 'gs"
  do_long_sequence_gst_of_file ::
    "(string \<rightharpoonup> string) \<Rightarrow> string \<Rightarrow> 'gs \<Rightarrow> gatestring list \<Rightarrow> gatestring list \<Rightarrow>
     gatestring list \<Rightarrow> nat list \<Rightarrow> kwargs \<Rightarrow> pyerror + 'res"
  make_lsgst_structs ::
    "'gs \<Rightarrow> gatestring list \<Rightarrow> gatestring list \<Rightarrow> gatestring list \<Rightarrow> nat list \<Rightarrow> kwargs \<Rightarrow>
     pyerror + 'structs"
  do_long_sequence_gst_base :: "'cnt dataset \<Rightarrow> 'gs \<Rightarrow> 'structs \<Rightarrow> pyerror + 'res"
  do_stdpractice_gst_with_target ::
    "'cnt dataset \<Rightarrow> 'gs \<Rightarrow> gatestring list \<Rightarrow> gatestring list \<Rightarrow> gatestring list \<Rightarrow>
     nat list \<Rightarrow> kwargs \<Rightarrow> 'gs \<Rightarrow> pyerror + 'res"
  goparameters_keys :: "'res \<Rightarrow> string \<Rightarrow> pyerror + string list"

definition example_dataset_file :: string where
  "example_dataset_file = ''tutorial_files/Example_Dataset.txt''"

definition itemWeights_kwargs :: kwargs where
  "itemWeights_kwargs =
     [(''itemWeights'', PyDict [(''gates'', PyFloat 1), (''spam'', PyFloat (1 / 1000))])]"

definition modes_kwargs :: kwargs where
  "modes_kwargs = [(''modes'', PyStr ''TP,CPTP,Target'')]"

text \<open>The cell that sets up the target, the fiducials, the germs and loads the data set.\<close>

definition tutorial09_setup ::
  "('gs, 'gate, 'basis, 'cnt, 'res, 'structs) pygsti_drivers \<Rightarrow> 'cnt dataset py" where
  "tutorial09_setup L =
     py_bind (\<lambda>w. libcall ''pygsti.io.load_dataset'' [(''cache'', PyBool True)]
                      (load_dataset_cached L (files w) example_dataset_file) w) (\<lambda>(ds, written).
     py_bind (lib_writes written) (\<lambda>_.
     py_return ds))"

text \<open>\<^verbatim>\<open>do_long_sequence_gst\<close> on the data set, with the minimal arguments.\<close>

definition tutorial09_lsgst ::
  "('gs, 'gate, 'basis, 'cnt, 'res, 'structs) pygsti_drivers \<Rightarrow> 'cnt dataset \<Rightarrow> 'res py" where
  "tutorial09_lsgst L ds =
     libcall ''pygsti.do_long_sequence_gst'' []
       (do_long_sequence_gst L ds (std1Q_XYI_gs_target L) (std1Q_XYI_prepStrs L)
          (std1Q_XYI_effectStrs L) (std1Q_XYI_germs L) maxLengths_1Q [])"

text \<open>The TP-constrained run on a copy of the target, with the data set given by file name.\<close>

definition tutorial09_TP ::
  "('gs, 'gate, 'basis, 'cnt, 'res, 'structs) pygsti_drivers \<Rightarrow> 'res py" where
  "tutorial09_TP L =
     py_bind (libcall ''gs_target.copy'' [] (gs_copy L (std1Q_XYI_gs_target L))) (\<lambda>gs_copied.
     py_bind (libcall ''gs_target_TP.set_all_parameterizations'' []
                (set_all_parameterizations L gs_copied ''TP'')) (\<lambda>gs_target_TP.
     (\<lambda>w. libcall ''pygsti.do_long_sequence_gst'' [(''gaugeOptParams'', PyDict itemWeights_kwargs)]
            (do_long_sequence_gst_of_file L (files w) example_dataset_file gs_target_TP
               (std1Q_XYI_prepStrs L) (std1Q_XYI_effectStrs L) (std1Q_XYI_germs L) maxLengths_1Q
               [(''gaugeOptParams'', PyDict itemWeights_kwargs)]) w)))"

text \<open>The run on the reduced sequence structures.\<close>

definition structs_kwargs :: kwargs where
  "structs_kwargs = [(''keepFraction'', PyFloat (1 / 2)), (''keepSeed'', PyInt 2018)]"

definition tutorial09_reduced ::
  "('gs, 'gate, 'basis, 'cnt, 'res, 'structs) pygsti_drivers \<Rightarrow> 'cnt dataset \<Rightarrow> 'res py" where
  "tutorial09_reduced L ds =
     py_bind (libcall ''pygsti.construction.make_lsgst_structs'' structs_kwargs
                (make_lsgst_structs L (std1Q_XYI_gs_target L) (std1Q_XYI_prepStrs L)
                   (std1Q_XYI_effectStrs L) (std1Q_XYI_germs L) maxLengths_1Q structs_kwargs))
             (\<lambda>lsgst_structs.
     libcall ''pygsti.do_long_sequence_gst_base'' []
       (do_long_sequence_gst_base L ds (std1Q_XYI_gs_target L) lsgst_structs))"

text \<open>
  A \<^verbatim>\<open>do_stdpractice_gst\<close> cell followed by the cell that prints the keys of the estimates
  and of the gauge optimizations of the \<^verbatim>\<open>TP\<close> estimate.
\<close>

definition tutorial09_stdprac ::
  "('gs, 'gate, 'basis, 'cnt, 'res, 'structs) pygsti_drivers \<Rightarrow> 'cnt dataset \<Rightarrow> kwargs \<Rightarrow> 'res py" where
  "tutorial09_stdprac L ds kw =
     py_bind (libcall ''pygsti.do_stdpractice_gst'' kw
                (do_stdpractice_gst L ds (std1Q_XYI_gs_target L) (std1Q_XYI_prepStrs L)
                   (std1Q_XYI_effectStrs L) (std1Q_XYI_germs L) maxLengths_1Q kw)) (\<lambda>res.
     py_bind (libcall ''estimates.__getitem__'' [] (goparameters_keys L res ''TP'')) (\<lambda>_.
     py_return res))"

definition customgo_kwargs :: kwargs where
  "customgo_kwargs =
     modes_kwargs @ [(''gaugeOptSuite'', PyDict [(''myGO'', PyDict itemWeights_kwargs)])]"

definition tutorial09_customgo ::
  "('gs, 'gate, 'basis, 'cnt, 'res, 'structs) pygsti_drivers \<Rightarrow> 'cnt dataset \<Rightarrow> 'res py" where
  "tutorial09_customgo L ds =
     py_bind (libcall ''gs_target.depolarize''
                [(''gate_noise'', PyFloat (5 / 1000)), (''spam_noise'', PyFloat (1 / 100))]
                (depolarize L (std1Q_XYI_gs_target L)
                   [(''gate_noise'', PyFloat (5 / 1000)), (''spam_noise'', PyFloat (1 / 100))]))
             (\<lambda>my_gaugeOptTarget.
     py_bind (libcall ''pygsti.do_stdpractice_gst'' customgo_kwargs
                (do_stdpractice_gst_with_target L ds (std1Q_XYI_gs_target L)
                   (std1Q_XYI_prepStrs L) (std1Q_XYI_effectStrs L) (std1Q_XYI_germs L)
                   maxLengths_1Q customgo_kwargs my_gaugeOptTarget)) (\<lambda>res.
     py_bind (libcall ''estimates.__getitem__'' [] (goparameters_keys L res ''TP'')) (\<lambda>_.
     py_return res)))"

text \<open>The last cell pickles four of the results.\<close>

definition tutorial09_dump ::
  "('gs, 'gate, 'basis, 'cnt, 'res, 'structs) pygsti_drivers \<Rightarrow> 'res \<Rightarrow> string \<Rightarrow> unit py" where
  "tutorial09_dump L res filename =
     py_bind (open_wb filename) (\<lambda>f.
     py_bind (libcall ''pickle.dump'' [] (pickle_dump_results L res)) (\<lambda>bytes.
     file_write filename bytes))"

definition tutorial09_notebook ::
  "('gs, 'gate, 'basis, 'cnt, 'res, 'structs) pygsti_drivers \<Rightarrow> ('cnt dataset \<times> 'res) py" where
  "tutorial09_notebook L =
     py_bind (tutorial09_setup L) (\<lambda>ds.
     py_bind (tutorial09_lsgst L ds) (\<lambda>res.
     py_bind (tutorial09_TP L) (\<lambda>results_TP.
     py_bind (tutorial09_reduced L ds) (\<lambda>results_reduced.
     py_bind (tutorial09_stdprac L ds modes_kwargs) (\<lambda>results_stdprac.
     py_bind (tutorial09_stdprac L ds (modes_kwargs @ [(''gaugeOptSuite'', PyStr ''varySpam'')]))
             (\<lambda>results_stdprac_nondefaultgo.
     py_bind (tutorial09_customgo L ds) (\<lambda>results_stdprac_customgo.
     py_bind (tutorial09_dump L res ''tutorial_files/exampleResults.pkl'') (\<lambda>_.
     py_bind (tutorial09_dump L results_TP ''tutorial_files/exampleResults_TP.pkl'') (\<lambda>_.
     py_bind (tutorial09_dump L results_reduced ''tutorial_files/exampleResults_reduced.pkl'')
             (\<lambda>_.
     py_bind (tutorial09_dump L results_stdprac ''tutorial_files/exampleResults_stdprac.pkl'')
             (\<lambda>_.
     py_return (ds, res))))))))))))"

section \<open>The report template "Gauge Invariant Error Metrics"\<close>

text \<open>
  The template, line by line. A line is either plain text or a placeholder
  \<^verbatim>\<open>%(key)s\<close> behind its indentation; the text of the file is every line followed by a
  line feed.
\<close>

datatype template_line = Plain string | Slot string string

definition text_of_line :: "template_line \<Rightarrow> string" where
  "text_of_line l = (case l of Plain t \<Rightarrow> t | Slot ind k \<Rightarrow> ind @ ''%('' @ k @ '')s'')"

definition gauge_invariant_lines :: "template_line list" where
  "gauge_invariant_lines =
     [Plain ([CHR 0x09] @ ''<h1>Gauge Invariant Error Metrics</h1>''),
      Plain ([CHR 0x09]
              @ ''<p>GST can estimate gates <em>up to an overall gauge</em>.  PyGSTi tries ''
              @ ''to find a good gauge in which to report process matrices and ''
              @ ''gauge-variant metrics like fidelity -- but sometimes this goes wrong.  ''
              @ ''The most reliable error metrics and gate properties are ''
              @ ''<em>gauge-invariant</em> ones, and these are listed on this tab.</p>''),
      Plain ([]),
      Plain ([CHR 0x09] @ ''<figure id='' @ dq ''bestGatesetVsTargetTable'' @ '' class='tbl'>''),
      Plain ([CHR 0x09] @ ''  <figcaption><span class='' @ dq ''captiontitle''
              @ ''>RB error metrics</span> <span class='' @ dq ''captiondetail''
              @ ''>This table shows estimates for the error rate that would be obtained ''
              @ ''using the Randomized Benchmarking (RB) protocol.  RB is performed in ''
              @ ''several different ways.  The <q>Clifford</q> RB number corresponds to the ''
              @ ''most standard form of RB, where random Clifford gate sequences are ''
              @ ''performed.  This number is dependent on how the Clifford operations are ''
              @ ''<q>compiled</q> from the primitive gates, and so if you didn't specify a ''
              @ ''Clifford compilation and pygsti couldn't deduce one, this quantity will ''
              @ ''be absent.  The <q>primitive</q> RB number corresponds to performing RB ''
              @ ''on random sequences of the primitive gates, rather than the Cliffords.  ''
              @ ''This number does not require any compilation table and is always be ''
              @ ''computed by pyGSTi.  Two caveats regarding these RB numbers: 1) the ''
              @ ''primitive RB number is not meaningful for arbitrary gate sets; if the ''
              @ ''gate set generates the Clifford group then it is definitely meaningful. ''
              @ ''2) these predicted RB numbers rely on a perturbative technique, and if ''
              @ ''the estimated gates are far from their ideal counterparts the predicted ''
              @ ''numbers may be very inaccurate.</span></figcaption>''),
      Slot ([CHR 0x09] @ ''  '') ''bestGatesetVsTargetTable'',
      Plain ([CHR 0x09] @ ''</figure>''),
      Plain ([CHR 0x09]),
      Plain ([CHR 0x09] @ ''<figure id='' @ dq ''bestGatesetSpamParametersTable''
              @ '' class='tbl'>''),
      Plain ([CHR 0x09] @ ''  <figcaption><span class='' @ dq ''captiontitle''
              @ ''>SPAM probabilities</span> <span class='' @ dq ''captiondetail''
              @ ''> This table shows estimated SPAM probabilities for each measurement ''
              @ ''outcome.  These are computed as <span class='' @ dq ''math'' @ ''>''
              @ [CHR 0x5C] @ ''mathrm{Tr}['' @ [CHR 0x5C]
              @ ''rho E_i]</span>, where <span class='' @ dq ''math'' @ ''>'' @ [CHR 0x5C]
              @ ''rho</span> is an estimated initial state (often labelled <span class=''
              @ dq ''math'' @ ''>'' @ [CHR 0x5C] @ ''rho_0</span>), and <span class=''
              @ dq ''math'' @ ''>'' @ [CHR 0x5C] @ ''{E_i'' @ [CHR 0x5C]
              @ ''}</span> is the estimated <em>n</em>-outcome POVM.  The symbol <span ''
              @ ''class='' @ dq ''math''
              @ ''>E_C</span> denotes the <em>n</em>th POVM effect, which is not allowed to ''
              @ ''vary freely but is defined by subtracting the sum of the other effects ''
              @ ''(which <em>are</em> freely varied) from the identity.</span></figcaption>''),
      Slot ([CHR 0x09] @ ''  '') ''bestGatesetSpamParametersTable'',
      Plain ([CHR 0x09] @ ''</figure>''),
      Plain ([]),
      Plain ([]),
      Plain ([CHR 0x09] @ ''<figure id='' @ dq ''gramBarPlot'' @ '' class='tbl'>''),
      Plain ([CHR 0x09] @ ''  <figcaption><span class='' @ dq ''captiontitle''
              @ ''>Gram matrix spectrum.</span> <span class='' @ dq ''captiondetail''
              @ ''>The GST Gram matrix is not a standard error metric, but it is ''
              @ ''gauge-invariant and critical to the GST process.  It provides some ''
              @ ''insight into generalized SPAM.  It is the (estimated) matrix of inner ''
              @ ''products between all the input states prepared by the various preparation ''
              @ ''fiducials, and all the measured effects prepared by the various ''
              @ ''measurement fiducials.  LGST involves inverting the Gram matrix, so it ''
              @ ''needs to be full rank.  In the plot, each pair of bars shows the ''
              @ ''<em>n</em>th  eigenvalues of the estimated Gram matrix and the Gram ''
              @ ''matrix predicted by the ideal targets (respectively).  Larger eigenvalues ''
              @ ''indicate better sensitivity, and the number of non-zero values indicates ''
              @ ''the dimension of the state (density matrix) space being probed (e.g., for ''
              @ ''a single qubit, the Gram matrix should have 4 O(1) eigenvalues).</span> ''
              @ ''</figcaption>''),
      Slot ([CHR 0x09] @ ''  '') ''gramBarPlot'',
      Plain ([CHR 0x09] @ ''</figure>''),
      Plain ([]),
      Plain ([CHR 0x09] @ ''<figure id='' @ dq ''bestGatesVsTargetTable_gi'' @ '' class='tbl'>''),
      Plain ([CHR 0x09] @ ''  <figcaption><span class='' @ dq ''captiontitle''
              @ ''>Spectral error metrics between estimated gates and ideal targets</span> ''
              @ ''<span class='' @ dq ''captiondetail''
              @ ''>This table presents a variety of gauge-invariant quantities that ''
              @ ''quantify the distance or discrepancy between (1) an estimated gate, and ''
              @ ''(2) the ideal corresponding target operation.  Each of these error ''
              @ ''metrics depends <em>only</em> on a specific gate's spectrum ''
              @ ''(eigenvalues), which are gauge-invariant and non-relational (i.e., they ''
              @ ''pertain to a single gate).  Hovering over a column header will pop up a ''
              @ ''mathematical description of the corresponding metric.</span></figcaption>''),
      Slot ([CHR 0x09] @ ''  '') ''bestGatesVsTargetTable_gi'',
      Plain ([CHR 0x09] @ ''</figure>''),
      Plain ([]),
      Plain ([CHR 0x09] @ ''<figure id='' @ dq ''singleMetricTable_gi'' @ '' class='tbl'>''),
      Plain ([CHR 0x09] @ ''  <figcaption><span class='' @ dq ''captiontitle''
              @ ''>Single metric comparison.</span> <span class='' @ dq ''captiondetail''
              @ ''>TODO: caption</span> </figcaption>''),
      Slot ([CHR 0x09] @ ''  '') ''metricSwitchboard_gi'',
      Slot ([CHR 0x09] @ ''  '') ''singleMetricTable_gi'',
      Plain ([CHR 0x09] @ ''</figure>''),
      Plain ([]),
      Plain ([]),
      Plain ([CHR 0x09] @ ''<figure id='' @ dq ''bestGatesetEigenvalueTable'' @ '' class='tbl'>''),
      Plain ([CHR 0x09] @ ''  <figcaption><span class='' @ dq ''captiontitle''
              @ ''>Eigenvalues of estimated gates.</span> <span class='' @ dq ''captiondetail''
              @ ''> This table lists the spectrum of each estimated gate.  It also breaks ''
              @ ''out the real and imaginary parts of each eigenvalue, <em>and</em> it ''
              @ ''compares the estimated eigenvalues to those of the ideal target gates in ''
              @ ''several useful ways.  To do these comparisons, each estimated eigenvalue ''
              @ ''needs to be matched up with a target eigenvalue, and pyGSTi does this ''
              @ ''independently for each metric by computing a minimum-weight matching ''
              @ ''based on that metric.  Hovering over a column header will pop up a ''
              @ ''mathematical description of the corresponding metric.</span></figcaption>''),
      Slot ([CHR 0x09] @ ''  '') ''bestGatesetEvalTable'',
      Plain ([CHR 0x09] @ ''</figure>'')]"

definition gauge_invariant_template :: string where
  "gauge_invariant_template = unlines (map text_of_line gauge_invariant_lines)"

definition placeholder_keys :: "string list" where
  "placeholder_keys =
     [''bestGatesetVsTargetTable'', ''bestGatesetSpamParametersTable'', ''gramBarPlot'',
      ''bestGatesVsTargetTable_gi'', ''metricSwitchboard_gi'', ''singleMetricTable_gi'',
      ''bestGatesetEvalTable'']"

datatype format_state = Literal | Percent | Key nat string | Conversion string

text \<open>
  Modelled from the spec: the function of the library that renders a template is not among
  the sources; the spec describes it as string substitution of placeholders into the HTML
  skeleton, and the placeholders are those of Python's \<^verbatim>\<open>%\<close> operator applied to a
  mapping. \<^verbatim>\<open>pyformat\<close> scans the format string once: \<^verbatim>\<open>%%\<close> gives a percent sign,
  \<^verbatim>\<open>%(key)s\<close> gives the value of \<^verbatim>\<open>key\<close> (parentheses inside a key nest), a missing key
  raises \<^verbatim>\<open>KeyError\<close>, a format that ends inside a placeholder raises \<^verbatim>\<open>ValueError\<close>. Only
  the conversion \<^verbatim>\<open>s\<close> on string values is modelled; any other conversion is an error.
\<close>

fun pyformat :: "(string \<rightharpoonup> string) \<Rightarrow> format_state \<Rightarrow> string \<Rightarrow> pyerror + string" where
  "pyformat m Literal [] = Inr []"
| "pyformat m Percent [] = Inl (ValueError ''incomplete format'')"
| "pyformat m (Key depth k) [] = Inl (ValueError ''incomplete format key'')"
| "pyformat m (Conversion k) [] = Inl (ValueError ''incomplete format'')"
| "pyformat m Literal (c # cs) =
     (if c = CHR ''%'' then pyformat m Percent cs
      else map_sum id ((#) c) (pyformat m Literal cs))"
| "pyformat m Percent (c # cs) =
     (if c = CHR ''%'' then map_sum id ((#) c) (pyformat m Literal cs)
      else if c = CHR ''('' then pyformat m (Key 0 []) cs
      else Inl (ValueError ''unsupported format character''))"
| "pyformat m (Key depth k) (c # cs) =
     (if c = CHR '')'' then
        (if depth = 0 then pyformat m (Conversion k) cs
         else pyformat m (Key (depth - 1) (k @ [c])) cs)
      else if c = CHR ''('' then pyformat m (Key (depth + 1) (k @ [c])) cs
      else pyformat m (Key depth (k @ [c])) cs)"
| "pyformat m (Conversion k) (c # cs) =
     (if c = CHR ''s'' then
        (case m k of
           None \<Rightarrow> Inl (KeyError k)
         | Some v \<Rightarrow> map_sum id ((@) v) (pyformat m Literal cs))
      else Inl (ValueError ''unsupported format character''))"

text \<open>
  Modelled from the spec: rendering a template (library code, not among the sources) is
  \<^verbatim>\<open>template % mapping\<close>.
\<close>

definition render :: "string \<Rightarrow> (string \<rightharpoonup> string) \<Rightarrow> pyerror + string" where
  "render template m = pyformat m Literal template"

text \<open>What substitution should give: a placeholder line becomes its indentation and the value.\<close>

definition fill_line :: "(string \<rightharpoonup> string) \<Rightarrow> template_line \<Rightarrow> string" where
  "fill_line m l = (case l of Plain t \<Rightarrow> t | Slot ind k \<Rightarrow> ind @ the (m k))"

definition slot_keys :: "template_line list \<Rightarrow> string list" where
  "slot_keys ls = concat (map (\<lambda>l. case l of Plain t \<Rightarrow> [] | Slot ind k \<Rightarrow> [k]) ls)"

text \<open>A line that \<^verbatim>\<open>pyformat\<close> reads as the datatype says: no stray percent sign.\<close>

definition plain_line :: "(string \<rightharpoonup> string) \<Rightarrow> template_line \<Rightarrow> bool" where
  "plain_line m l =
     (case l of
        Plain t \<Rightarrow> CHR ''%'' \<notin> set t
      | Slot ind k \<Rightarrow> CHR ''%'' \<notin> set ind \<and> CHR ''('' \<notin> set k \<and> CHR '')'' \<notin> set k \<and> m k \<noteq> None)"

section \<open>The notebook template \<^verbatim>\<open>report_notebook/summary.txt\<close>\<close>

text \<open>The file, as the list of its lines (the last line has no line feed).\<close>

definition summary_template :: "string list" where
  "summary_template =
     [''@@markdown'',
      ''# Summary'',
      ''Several of the most important figures up front.'',
      ''### Model Violation '',
      ''The aggregate log-likelihood as a function of GST iterations''
        @ [CHR 0x27, CHR 0x27, CHR 0x27] @ '')'',
      ''@@code'',
      ''ws.FitComparisonBarPlot(Ls, gssPerIter, gsPerIter, '',
      ''                        effective_ds, objective, 'L')'',
      ''@@markdown'',
      ''### Per-sequence Model Violation'',
      ''And a histogram of the per-sequence goodness of fit values.''
        @ [CHR 0x27, CHR 0x27, CHR 0x27] @ '')'',
      ''@@code'',
      ''k = -1 #iteration index'',
      ''colorHistogramPlot = ws.ColorBoxPlot('',
      ''    objective, gssPerIter[k], effective_ds, gsPerIter[k],'',
      ''    linlg_pcntle=0.95, minProbClipForWeighting=mpc, typ='histogram')'',
      ''@@markdown'',
      ''### Comparison of GST estimated gates to target gates: '',
      ''This table presents, for each of the gates, three different measures of ''
        @ ''distance or discrepancy from the GST estimate to the ideal target operation.  ''
        @ ''See text for more detail.'' @ [CHR 0x27, CHR 0x27, CHR 0x27] @ '')'',
      ''@@code'',
      ''ws.GatesVsTargetTable(gs, gs_target, cri)'']"

datatype block_kind = Markdown | Code

text \<open>The marker lines of the template.\<close>

definition marker :: "string \<Rightarrow> block_kind option" where
  "marker l = (if l = ''@@markdown'' then Some Markdown
               else if l = ''@@code'' then Some Code else None)"

definition marker_line :: "block_kind \<Rightarrow> string" where
  "marker_line k = (case k of Markdown \<Rightarrow> ''@@markdown'' | Code \<Rightarrow> ''@@code'')"

text \<open>
  Modelled from the spec: the function of the library that assembles the summary notebook
  from this template is not among the sources. A line \<^verbatim>\<open>@@markdown\<close> or \<^verbatim>\<open>@@code\<close> starts
  a block of that kind; the lines up to the next marker line are the body of the block.
  \<^verbatim>\<open>collect\<close> gives the lines before the first marker and the blocks from there on.
\<close>

fun collect :: "string list \<Rightarrow> string list \<times> (block_kind \<times> string list) list" where
  "collect [] = ([], [])"
| "collect (l # ls) =
     (case collect ls of (body, blocks) \<Rightarrow>
        (case marker l of
           Some k \<Rightarrow> ([], (k, body) # blocks)
         | None \<Rightarrow> (l # body, blocks)))"

text \<open>
  Modelled from the spec: parsing the template into its blocks (library code, not among
  the sources). Text before the first marker belongs to no block and is an error.
\<close>

definition parse_blocks :: "string list \<Rightarrow> (block_kind \<times> string list) list option" where
  "parse_blocks ls = (case collect ls of ([], blocks) \<Rightarrow> Some blocks | (l # body, blocks) \<Rightarrow> None)"

text \<open>The lines of a block: its marker line and its body.\<close>

definition block_lines :: "block_kind \<times> string list \<Rightarrow> string list" where
  "block_lines b = marker_line (fst b) # snd b"

section \<open>Events that involve a communicator\<close>

fun has_comm :: "pyval \<Rightarrow> bool" where
  "has_comm (PyComm c) = True"
| "has_comm (PyTuple vs) = (\<exists>v \<in> set vs. has_comm v)"
| "has_comm (PyDict kvs) = (\<exists>kv \<in> set kvs. has_comm (snd kv))"
| "has_comm v = False"

definition uses_comm :: "event \<Rightarrow> bool" where
  "uses_comm e =
     (case e of
        Lib name kw ok \<Rightarrow> (\<exists>kv \<in> set kw. has_comm (snd kv))
      | GetRank c \<Rightarrow> True
      | OpenRead path \<Rightarrow> False
      | OpenWrite path \<Rightarrow> False)"

definition comm_events :: "event list \<Rightarrow> event list" where
  "comm_events t = filter uses_comm t"

definition is_generate :: "event \<Rightarrow> bool" where
  "is_generate e =
     (case e of
        Lib name kw ok \<Rightarrow> name = ''pygsti.construction.generate_fake_data''
      | GetRank c \<Rightarrow> False
      | OpenRead path \<Rightarrow> False
      | OpenWrite path \<Rightarrow> False)"

definition is_make_list :: "event \<Rightarrow> bool" where
  "is_make_list e =
     (case e of
        Lib name kw ok \<Rightarrow> name = ''pygsti.construction.make_lsgst_experiment_list''
      | GetRank c \<Rightarrow> False
      | OpenRead path \<Rightarrow> False
      | OpenWrite path \<Rightarrow> False)"

section \<open>Small libraries on which the scripts can be run\<close>

text \<open>
  Libraries whose operations all succeed, with one-element types for the opaque objects.
  They serve to run the scripts on concrete inputs.
\<close>

definition example_estimate :: "unit estimate" where
  "example_estimate =
     \<lparr>parameters = [''memLimit'' \<mapsto> PyNone, ''tolerance'' \<mapsto> PyFloat (1 / 1000000)],
      estimate_rest = ()\<rparr>"

definition example_results :: "(unit, unit) results" where
  "example_results = \<lparr>estimates = [''default'' \<mapsto> example_estimate], results_rest = ()\<rparr>"

definition example_crlib :: "(unit, unit, unit) crlib" where
  "example_crlib =
     \<lparr>pickle_load = (\<lambda>bytes. Inr example_results),
      pickle_dump = (\<lambda>res. Inr ''results''),
      add_confidence_region_factory = (\<lambda>est gateset_label gatestrings_label. Inr ((), est)),
      compute_hessian = (\<lambda>crfact kw est. Inr est),
      project_hessian = (\<lambda>crfact projection_type est. Inr est)\<rparr>"

definition example_files :: "string \<rightharpoonup> string" where
  "example_files = [errorbars_in \<mapsto> ''results'']"

definition example_germlib :: "unit germlib" where
  "example_germlib =
     \<lparr>std2Q_XYICNOT_gs_target = (),
      germ_gates_keys = (\<lambda>gs. [''Gix'', ''Gcnot'']),
      list_all_gatestrings_without_powers_and_cycles = (\<lambda>labels kw. Inr (map (\<lambda>gl. [gl]) labels)),
      list_random_gatestrings_onelen = (\<lambda>labels germLength count kw. Inr [replicate germLength (hd labels)]),
      remove_duplicates = (\<lambda>l. Inr (remdups l)),
      build_up_breadth = (\<lambda>gs available_germs kw. Inr (take 2 available_germs)),
      pickle_dump_germs = (\<lambda>germs. Inr ''germs'')\<rparr>"

definition example_pygsti :: "(unit, unit, unit, nat, string) pygsti" where
  "example_pygsti =
     \<lparr>std1Q_XYI_gs_target = (),
      std1Q_XYI_fiducials = [[], [''Gx''], [''Gy'']],
      std1Q_XYI_prepStrs = [[], [''Gx''], [''Gy'']],
      std1Q_XYI_effectStrs = [[], [''Gx''], [''Gy'']],
      std1Q_XYI_germs = [[''Gi''], [''Gx''], [''Gy''], [''Gx'', ''Gi'']],
      stdQT_XYIMS_gs_target = (),
      stdQT_XYIMS_prepStrs = [[], [''Gx'']],
      stdQT_XYIMS_effectStrs = [[], [''Gy'']],
      stdQT_XYIMS_germs_lite = [[''Gi''], [''Gm'']],
      gates_keys = (\<lambda>gs. [''Gi'', ''Gx'', ''Gy'']),
      basis = (\<lambda>gs. ()),
      depolarize = (\<lambda>gs kw. Inr gs),
      set_all_parameterizations = (\<lambda>gs p. Inr gs),
      gs_getitem = (\<lambda>gs l. Inr ()),
      gs_setitem = (\<lambda>gs l g. Inr gs),
      gate_copy = (\<lambda>g. Inr g),
      gate_depolarize = (\<lambda>g amount. Inr g),
      gate_rotate = (\<lambda>g amount b. Inr g),
      make_lsgst_experiment_list = (\<lambda>src prep meas germs maxLengths. Inr germs),
      generate_fake_data = (\<lambda>gs exps nSamples sampleError seed. Inr (map (\<lambda>s. (s, nSamples)) exps)),
      write_dataset = (\<lambda>ds. Inr ''dataset''),
      load_dataset = (\<lambda>text. Inr [([''Gi''], 1000)]),
      write_empty_dataset = (\<lambda>exps header. Inr header),
      do_long_sequence_gst = (\<lambda>ds gs prep meas germs maxLengths kw. Inr ''results''),
      do_stdpractice_gst = (\<lambda>ds gs prep meas germs maxLengths kw. Inr ''results''),
      pickle_dump_results = (\<lambda>res. Inr res),
      pickle_load_results = (\<lambda>bytes. Inr bytes),
      create_standard_report = (\<lambda>res filename title kw. Inr [filename \<mapsto> title])\<rparr>"

definition example_tables :: "string \<rightharpoonup> string" where
  "example_tables k =
     (if k \<in> set placeholder_keys then Some (''<table id='' @ k @ ''></table>'') else None)"

definition example_experiments :: "gatestring list" where
  "example_experiments = [[''Gi''], [''Gx''], [''Gy''], [''Gx'', ''Gi'']]"

definition example_rewritten :: "gatestring list" where
  "example_rewritten = [[''Gi''], [''Gx''], [''Gy''], [''Gx'', ''Gi2'']]"

definition example_dataset :: "nat \<Rightarrow> nat dataset" where
  "example_dataset nSamples = map (\<lambda>s. (s, nSamples)) example_experiments"

definition example_outcomes :: "(pyerror + nat dataset \<times> string) list" where
  "example_outcomes =
     [Inr ([([''Gi''], 1000)], ''results''), Inr ([([''Gi''], 1000)], ''results''),
      Inr ([([''Gi''], 1000)], ''results'')]"

definition example_qutrit_experiments :: "gatestring list" where
  "example_qutrit_experiments = [[''Gi''], [''Gm'']]"

definition example_qutrit_dataset :: "nat dataset" where
  "example_qutrit_dataset = map (\<lambda>s. (s, 500)) example_qutrit_experiments"

definition example_mpi_world :: world where
  "example_mpi_world = initial_world [mpi_dataset_file \<mapsto> ''dataset'']"

definition rank0 :: comm where
  "rank0 = \<lparr>Get_rank = 0, Get_size = 3\<rparr>"

definition rank1 :: comm where
  "rank1 = \<lparr>Get_rank = 1, Get_size = 3\<rparr>"

text \<open>The example library with a \<^verbatim>\<open>load_dataset\<close> that reads back the example data set.\<close>

definition example_pygsti_io :: "(unit, unit, unit, nat, string) pygsti" where
  "example_pygsti_io = example_pygsti\<lparr>load_dataset := (\<lambda>dstext. Inr (example_dataset 1000))\<rparr>"

definition example_outcomes_io :: "(pyerror + nat dataset \<times> string) list" where
  "example_outcomes_io =
     [Inr (example_dataset 1000, ''results''), Inr (example_dataset 1000, ''results''),
      Inr (example_dataset 1000, ''results'')]"

text \<open>The example library with the operations of the high-level tutorial.\<close>

definition example_drivers :: "(unit, unit, unit, nat, string, unit) pygsti_drivers" where
  "example_drivers =
     pygsti.extend example_pygsti
       (pygsti_drivers.fields
          (\<lambda>fs filename. case fs filename of
               None \<Rightarrow> Inl (FileNotFoundError filename)
             | Some dstext \<Rightarrow> Inr ([([''Gi''], 1000)], Map.empty))
          (\<lambda>gs. Inr gs)
          (\<lambda>fs filename gs prep meas germs maxLengths kw. case fs filename of
               None \<Rightarrow> Inl (FileNotFoundError filename)
             | Some dstext \<Rightarrow> Inr ''results'')
          (\<lambda>gs prep meas germs maxLengths kw. Inr ())
          (\<lambda>ds gs structs. Inr ''results'')
          (\<lambda>ds gs prep meas germs maxLengths kw target. Inr ''results'')
          (\<lambda>res k. Inr [''go0'']))"

definition example_tutorial_files :: "string \<rightharpoonup> string" where
  "example_tutorial_files = [example_dataset_file \<mapsto> ''dataset'']"

definition example_candidates :: "gatestring list" where
  "example_candidates =
     [[''Gix''], [''Gcnot''], replicate 4 ''Gix'', replicate 5 ''Gix'', replicate 6 ''Gix'',
      replicate 7 ''Gix'', replicate 8 ''Gix'']"

definition example_mpi_files :: "string \<rightharpoonup> string" where
  "example_mpi_files = [mpi_dataset_file \<mapsto> ''dataset'']"

text \<open>A computation that only adds events that neither build an experiment list nor generate data.\<close>

definition generates_nothing :: "'a py \<Rightarrow> bool" where
  "generates_nothing m =
     (\<forall>w. \<exists>evs. trace (snd (m w)) = trace w @ evs \<and> filter is_generate evs = [] \<and>
            filter is_make_list evs = [])"

section \<open>Properties of the scripts and templates\<close>

lemmas py_defs = py_return_def py_raise_def py_bind_def record_event_def returned_def libcall_def
  comm_Get_rank_def open_rb_def open_wb_def file_write_def getitem_def lookup_global_def
  lib_writes_def

lemmas io_defs = io_write_dataset_def io_load_dataset_def io_write_empty_dataset_def
  report_create_standard_report_def

lemmas path_defs = mpi_dataset_file_def mpi_results_file_def mpi_script_file_def

lemmas example_defs = example_pygsti_def example_experiments_def example_rewritten_def
  example_dataset_def example_outcomes_def initial_world_def maxLengths_1Q_def maxLengths_QT_def

subsection \<open>The summary template\<close>

lemma collect_lines: "fst (collect ls) @ concat (map block_lines (snd (collect ls))) = ls"
  by (induction ls)
     (auto simp: block_lines_def marker_def marker_line_def split: prod.splits option.splits)

lemma parse_blocks_lines: "parse_blocks ls = Some bs \<Longrightarrow> concat (map block_lines bs) = ls"
  using collect_lines [of ls]
  by (auto simp: parse_blocks_def split: prod.splits list.splits)

text \<open>
  Claim C7. The summary template parses into blocks delimited by \<^verbatim>\<open>@@markdown\<close> and
  \<^verbatim>\<open>@@code\<close> marker lines. The blocks alternate, starting with a markdown block: three
  markdown blocks, each followed by a code block. The marker line and the body lines of the
  blocks, in order, are exactly the lines of the file, so every line lies in one block.
\<close>

theorem summary_blocks:
  "\<exists>bs. parse_blocks summary_template = Some bs \<and>
     map fst bs = [Markdown, Code, Markdown, Code, Markdown, Code] \<and>
     concat (map block_lines bs) = summary_template"
  by (simp add: parse_blocks_def summary_template_def marker_def block_lines_def marker_line_def)

subsection \<open>The gauge-invariant error-metrics template\<close>

lemma map_sum_append_Nil: "map_sum id ((@) []) r = r"
  by (cases r) simp_all

lemma map_sum_Cons_append:
  "map_sum id ((#) c) (map_sum id ((@) t) r) = map_sum id ((@) (c # t)) r"
  by (cases r) simp_all

lemma map_sum_append_append:
  "map_sum id ((@) s) (map_sum id ((@) t) r) = map_sum id ((@) (s @ t)) r"
  by (cases r) simp_all

text \<open>Text without a percent sign is copied.\<close>

lemma pyformat_plain:
  "CHR ''%'' \<notin> set t \<Longrightarrow>
   pyformat m Literal (t @ rest) = map_sum id ((@) t) (pyformat m Literal rest)"
  by (induction t) (auto simp: map_sum_append_Nil map_sum_Cons_append)

lemma pyformat_key:
  "CHR ''('' \<notin> set k \<Longrightarrow> CHR '')'' \<notin> set k \<Longrightarrow>
   pyformat m (Key 0 acc) (k @ CHR '')'' # rest) = pyformat m (Conversion (acc @ k)) rest"
  by (induction k arbitrary: acc) auto

text \<open>A placeholder is replaced by the value of its key.\<close>

lemma pyformat_slot:
  "CHR ''('' \<notin> set k \<Longrightarrow> CHR '')'' \<notin> set k \<Longrightarrow> m k = Some v \<Longrightarrow>
   pyformat m Literal (''%('' @ k @ '')s'' @ rest) = map_sum id ((@) v) (pyformat m Literal rest)"
  using pyformat_key [of k m "[]" "CHR ''s'' # rest"] by simp

lemma pyformat_line:
  assumes "plain_line m l"
  shows "pyformat m Literal (text_of_line l @ CHR 0x0A # rest) =
         map_sum id ((@) (fill_line m l @ [CHR 0x0A])) (pyformat m Literal rest)"
proof (cases l)
  case (Plain t)
  with assms have "CHR ''%'' \<notin> set (t @ [CHR 0x0A])" by (simp add: plain_line_def)
  from pyformat_plain [OF this, of m rest] show ?thesis
    by (simp add: Plain text_of_line_def fill_line_def)
next
  case (Slot ind k)
  with assms obtain v where k: "CHR ''('' \<notin> set k" "CHR '')'' \<notin> set k" "m k = Some v"
    and ind: "CHR ''%'' \<notin> set ind"
    by (auto simp: plain_line_def)
  have nl: "CHR ''%'' \<notin> set [CHR 0x0A]" by simp
  have "pyformat m Literal (ind @ (''%('' @ k @ '')s'' @ ([CHR 0x0A] @ rest))) =
        map_sum id ((@) ind)
          (map_sum id ((@) v) (map_sum id ((@) [CHR 0x0A]) (pyformat m Literal rest)))"
    by (simp only: pyformat_plain [OF ind] pyformat_slot [of k m v, OF k] pyformat_plain [OF nl])
  then show ?thesis
    by (simp add: Slot text_of_line_def fill_line_def k map_sum_append_append)
qed

lemma pyformat_lines:
  "\<forall>l \<in> set ls. plain_line m l \<Longrightarrow>
   pyformat m Literal (unlines (map text_of_line ls)) = Inr (unlines (map (fill_line m) ls))"
proof (induction ls)
  case Nil
  then show ?case by (simp add: unlines_def)
next
  case (Cons l ls)
  then have "plain_line m l" by simp
  from pyformat_line [OF this, of "unlines (map text_of_line ls)"] Cons show ?case
    by (simp add: unlines_def)
qed

lemma gauge_invariant_plain:
  "\<forall>k \<in> set placeholder_keys. m k \<noteq> None \<Longrightarrow> \<forall>l \<in> set gauge_invariant_lines. plain_line m l"
  by (simp add: gauge_invariant_lines_def placeholder_keys_def plain_line_def dq_def)

text \<open>
  Claim C2. Rendering the gauge-invariant error-metrics template is string substitution:
  for every mapping that has a value for each of the seven placeholder keys, the rendered
  text is the template with each placeholder \<^verbatim>\<open>%(key)s\<close> replaced by the value of its key
  and every other character unchanged. The placeholders of the template are the seven keys.
\<close>

theorem gauge_invariant_render:
  assumes "\<forall>k \<in> set placeholder_keys. m k \<noteq> None"
  shows "render gauge_invariant_template m =
           Inr (unlines (map (fill_line m) gauge_invariant_lines)) \<and>
         slot_keys gauge_invariant_lines = placeholder_keys"
proof
  show "render gauge_invariant_template m =
          Inr (unlines (map (fill_line m) gauge_invariant_lines))"
    unfolding render_def gauge_invariant_template_def
    by (rule pyformat_lines [OF gauge_invariant_plain [OF assms]])
  show "slot_keys gauge_invariant_lines = placeholder_keys"
    by (simp add: slot_keys_def gauge_invariant_lines_def placeholder_keys_def)
qed

theorem gauge_invariant_render_witness:
  "render gauge_invariant_template example_tables =
     Inr (unlines (map (fill_line example_tables) gauge_invariant_lines)) \<and>
   slot_keys gauge_invariant_lines = placeholder_keys"
proof -
  have h: "\<forall>k \<in> set placeholder_keys. example_tables k \<noteq> None"
    by (simp add: example_tables_def)
  from gauge_invariant_render [OF h] show ?thesis .
qed

subsection \<open>Replacement rules\<close>

lemma manip_rules_GxGi:
  "manipulate_gatestring (''Gx'' # ''Gi'' # r) rules =
   ''Gx'' # ''Gi2'' # manipulate_gatestring r rules"
  by (simp add: rules_def)

lemma manip_rules_other:
  "\<not> (g = ''Gx'' \<and> (\<exists>r'. r = ''Gi'' # r')) \<Longrightarrow>
   manipulate_gatestring (g # r) rules = g # manipulate_gatestring r rules"
  by (cases r) (auto simp: rules_def)

lemma manip_rev_rules:
  "manipulate_gatestring s rev_rules = map (\<lambda>g. if g = ''Gi2'' then ''Gi'' else g) s"
  by (induction s) (auto simp: rev_rules_def)

declare manipulate_gatestring.simps(2) [simp del]

lemma revert_replace:
  "''Gi2'' \<notin> set s \<Longrightarrow> manipulate_gatestring (manipulate_gatestring s rules) rev_rules = s"
proof (induction s rule: induct_list012)
  case 1
  then show ?case by simp
next
  case (2 x)
  then show ?case by (simp add: manip_rules_other manip_rev_rules)
next
  case (3 x y zs)
  show ?case
  proof (cases "x = ''Gx'' \<and> y = ''Gi''")
    case True
    with 3 show ?thesis by (simp add: manip_rules_GxGi manip_rev_rules)
  next
    case False
    then have "manipulate_gatestring (x # y # zs) rules =
               x # manipulate_gatestring (y # zs) rules"
      by (intro manip_rules_other) auto
    with 3 show ?thesis by (auto simp: manip_rev_rules)
  qed
qed

lemma no_Gi2_after_revert:
  "''Gi2'' \<notin> gate_labels_of
     (process_gate_strings ds (\<lambda>gstr. manipulate_gatestring gstr rev_rules))"
  by (auto simp: gate_labels_of_def process_gate_strings_def manip_rev_rules split: if_splits)

lemma context_cell2_result:
  assumes "fst (context_cell2 L w) = Inr (exps', ds')"
  shows "\<exists>exps ds gsd.
     make_lsgst_experiment_list L (GateSet (std1Q_XYI_gs_target L)) (std1Q_XYI_fiducials L)
       (std1Q_XYI_fiducials L) (std1Q_XYI_germs L) maxLengths_1Q = Inr exps \<and>
     exps' = manipulate_gatestring_list exps rules \<and>
     generate_fake_data L gsd exps' 10000 ''binomial'' 1234 = Inr ds \<and>
     ds' = process_gate_strings ds (\<lambda>gstr. manipulate_gatestring gstr rev_rules)"
  using assms
  by (auto simp: context_cell2_def py_defs Let_def split: sum.splits prod.splits)

lemma context_cell2_example:
  "fst (context_cell2 example_pygsti (initial_world Map.empty)) =
     Inr (example_rewritten, example_dataset 10000)"
  by (simp add: context_cell2_def py_defs Let_def example_defs depolarize_kwargs_def
      binomial_kwargs_def manipulate_gatestring_list_def process_gate_strings_def
      manipulate_gatestring.simps rules_def rev_rules_def)

text \<open>
  Claim C8. For every gate sequence that contains no label \<^verbatim>\<open>Gi2\<close>, applying the
  replacement rule \<^verbatim>\<open>GxGi => GxGi2\<close> and then the reversion rule \<^verbatim>\<open>Gi2 => Gi\<close> gives the
  sequence back. Whenever the data-generating cell of the context-dependence notebook
  completes, the data set it leaves contains no label \<^verbatim>\<open>Gi2\<close>.
\<close>

theorem revert_after_replace:
  "(''Gi2'' \<notin> set s \<longrightarrow>
      manipulate_gatestring (manipulate_gatestring s rules) rev_rules = s) \<and>
   (fst (context_cell2 L w) = Inr (exps, ds) \<longrightarrow> ''Gi2'' \<notin> gate_labels_of ds)"
proof (intro conjI impI)
  assume "''Gi2'' \<notin> set s"
  then show "manipulate_gatestring (manipulate_gatestring s rules) rev_rules = s"
    by (rule revert_replace)
next
  assume "fst (context_cell2 L w) = Inr (exps, ds)"
  from context_cell2_result [OF this] show "''Gi2'' \<notin> gate_labels_of ds"
    using no_Gi2_after_revert by blast
qed

theorem revert_after_replace_witness:
  "''Gi2'' \<notin> set [''Gx'', ''Gi'', ''Gy'', ''Gi''] \<and>
   manipulate_gatestring (manipulate_gatestring [''Gx'', ''Gi'', ''Gy'', ''Gi''] rules) rev_rules =
     [''Gx'', ''Gi'', ''Gy'', ''Gi''] \<and>
   fst (context_cell2 example_pygsti (initial_world Map.empty)) =
     Inr (example_rewritten, example_dataset 10000) \<and>
   ''Gi2'' \<notin> gate_labels_of (example_dataset 10000)"
proof -
  have h: "''Gi2'' \<notin> set [''Gx'', ''Gi'', ''Gy'', ''Gi'']" by simp
  from revert_after_replace [of "[''Gx'', ''Gi'', ''Gy'', ''Gi'']" example_pygsti
      "initial_world Map.empty" example_rewritten "example_dataset 10000"]
    h context_cell2_example
  show ?thesis by blast
qed

subsection \<open>The error-bars notebook\<close>

text \<open>
  Claim C10. When the results file can be unpickled and holds a default estimate, the first
  cell completes, and of the unpickled results object it changes only the entry
  \<^verbatim>\<open>memLimit\<close> of the parameters of the default estimate, which becomes
  \<^verbatim>\<open>2.5 * 1024^3 = 2684354560\<close>: the other parameters, the rest of the default estimate, the
  other estimates and the rest of the results object are as unpickled. The cell leaves
  \<^verbatim>\<open>comm = None\<close> and does not change the file system.
\<close>

theorem errorbars_cell1_frame:
  assumes "files w errorbars_in = Some bytes" "pickle_load L bytes = Inr res"
    "estimates res ''default'' = Some est"
  shows "\<exists>res' est' w'. errorbars_cell1 L w = (Inr (None, res'), w') \<and>
     estimates res' ''default'' = Some est' \<and>
     parameters est' ''memLimit'' = Some (PyFloat 2684354560) \<and>
     (\<forall>k. k \<noteq> ''memLimit'' \<longrightarrow> parameters est' k = parameters est k) \<and>
     estimate_rest est' = estimate_rest est \<and>
     (\<forall>k. k \<noteq> ''default'' \<longrightarrow> estimates res' k = estimates res k) \<and>
     results_rest res' = results_rest res \<and> files w' = files w"
  using assms by (simp add: errorbars_cell1_def py_defs memLimit_2q_def Let_def)

theorem errorbars_cell1_frame_witness:
  "files (initial_world example_files) errorbars_in = Some ''results'' \<and>
   pickle_load example_crlib ''results'' = Inr example_results \<and>
   estimates example_results ''default'' = Some example_estimate \<and>
   (\<exists>res' est' w'.
      errorbars_cell1 example_crlib (initial_world example_files) = (Inr (None, res'), w') \<and>
      estimates res' ''default'' = Some est' \<and>
      parameters est' ''memLimit'' = Some (PyFloat 2684354560) \<and>
      (\<forall>k. k \<noteq> ''memLimit'' \<longrightarrow> parameters est' k = parameters example_estimate k) \<and>
      estimate_rest est' = estimate_rest example_estimate \<and>
      (\<forall>k. k \<noteq> ''default'' \<longrightarrow> estimates res' k = estimates example_results k) \<and>
      results_rest res' = results_rest example_results \<and>
      files w' = files (initial_world example_files))"
proof -
  have h1: "files (initial_world example_files) errorbars_in = Some ''results''"
    by (simp add: initial_world_def example_files_def)
  have h2: "pickle_load example_crlib ''results'' = Inr example_results"
    by (simp add: example_crlib_def)
  have h3: "estimates example_results ''default'' = Some example_estimate"
    by (simp add: example_results_def)
  from errorbars_cell1_frame [OF h1 h2 h3] h1 h2 h3 show ?thesis by blast
qed

text \<open>
  Claim C4. The error-bars notebook is sequential. In a run of its cells in order from a
  fresh kernel, the output pickle is opened for writing only after the results were
  loaded and \<^verbatim>\<open>add_confidence_region_factory('go0', 'final')\<close> on the default estimate,
  \<^verbatim>\<open>compute_hessian\<close> and \<^verbatim>\<open>project_hessian('intrinsic error')\<close> on the factory it gave
  have returned normally, in this order; and the output file changes only if it was opened
  for writing.
\<close>

theorem errorbars_write_after_hessian:
  "(OpenWrite errorbars_out \<in> set (trace (snd (errorbars_notebook L (initial_world fs)))) \<longrightarrow>
     (\<exists>ok. trace (snd (errorbars_notebook L (initial_world fs))) =
       [OpenRead errorbars_in, Lib ''pickle.load'' [] True,
        Lib ''add_confidence_region_factory'' [] True,
        Lib ''crfact.compute_hessian'' [(''comm'', PyNone)] True,
        Lib ''crfact.project_hessian'' [] True,
        OpenWrite errorbars_out, Lib ''pickle.dump'' [] ok]) \<and>
     (\<exists>bytes res est crfact est1 est2 est3.
        fs errorbars_in = Some bytes \<and> pickle_load L bytes = Inr res \<and>
        estimates res ''default'' = Some est \<and>
        add_confidence_region_factory L
          (est\<lparr>parameters := (parameters est)(''memLimit'' \<mapsto> memLimit_2q)\<rparr>)
          ''go0'' ''final'' = Inr (crfact, est1) \<and>
        compute_hessian L crfact [(''comm'', PyNone)] est1 = Inr est2 \<and>
        project_hessian L crfact ''intrinsic error'' est2 = Inr est3)) \<and>
   (files (snd (errorbars_notebook L (initial_world fs))) errorbars_out \<noteq> fs errorbars_out \<longrightarrow>
      OpenWrite errorbars_out \<in> set (trace (snd (errorbars_notebook L (initial_world fs)))))"
  by (auto simp: errorbars_notebook_def errorbars_cell1_def errorbars_cell2_def errorbars_cell3_def
      py_defs initial_world_def py_of_comm_def Let_def errorbars_in_def errorbars_out_def
      split: sum.splits prod.splits option.splits)

lemma errorbars_example:
  "trace (snd (errorbars_notebook example_crlib (initial_world example_files))) =
     [OpenRead errorbars_in, Lib ''pickle.load'' [] True,
      Lib ''add_confidence_region_factory'' [] True,
      Lib ''crfact.compute_hessian'' [(''comm'', PyNone)] True,
      Lib ''crfact.project_hessian'' [] True,
      OpenWrite errorbars_out, Lib ''pickle.dump'' [] True] \<and>
   files (snd (errorbars_notebook example_crlib (initial_world example_files))) errorbars_out =
     Some ''results''"
  by (simp add: errorbars_notebook_def errorbars_cell1_def errorbars_cell2_def errorbars_cell3_def
      py_defs initial_world_def py_of_comm_def Let_def example_crlib_def example_files_def
      example_results_def example_estimate_def errorbars_in_def errorbars_out_def)

theorem errorbars_write_after_hessian_witness:
  "OpenWrite errorbars_out \<in>
     set (trace (snd (errorbars_notebook example_crlib (initial_world example_files)))) \<and>
   files (snd (errorbars_notebook example_crlib (initial_world example_files))) errorbars_out \<noteq>
     example_files errorbars_out \<and>
   (\<exists>ok. trace (snd (errorbars_notebook example_crlib (initial_world example_files))) =
       [OpenRead errorbars_in, Lib ''pickle.load'' [] True,
        Lib ''add_confidence_region_factory'' [] True,
        Lib ''crfact.compute_hessian'' [(''comm'', PyNone)] True,
        Lib ''crfact.project_hessian'' [] True,
        OpenWrite errorbars_out, Lib ''pickle.dump'' [] ok]) \<and>
   (\<exists>bytes res est crfact est1 est2 est3.
      example_files errorbars_in = Some bytes \<and> pickle_load example_crlib bytes = Inr res \<and>
      estimates res ''default'' = Some est \<and>
      add_confidence_region_factory example_crlib
        (est\<lparr>parameters := (parameters est)(''memLimit'' \<mapsto> memLimit_2q)\<rparr>)
        ''go0'' ''final'' = Inr (crfact, est1) \<and>
      compute_hessian example_crlib crfact [(''comm'', PyNone)] est1 = Inr est2 \<and>
      project_hessian example_crlib crfact ''intrinsic error'' est2 = Inr est3)"
proof -
  have h1: "OpenWrite errorbars_out \<in>
     set (trace (snd (errorbars_notebook example_crlib (initial_world example_files))))"
    by (simp add: errorbars_example)
  have h2: "files (snd (errorbars_notebook example_crlib (initial_world example_files)))
      errorbars_out \<noteq> example_files errorbars_out"
  proof -
    from errorbars_example
    have "files (snd (errorbars_notebook example_crlib (initial_world example_files)))
      errorbars_out = Some ''results''" by blast
    moreover have "example_files errorbars_out = None"
      by (simp add: example_files_def errorbars_in_def errorbars_out_def)
    ultimately show ?thesis by simp
  qed
  from errorbars_write_after_hessian [of example_crlib example_files] h1 h2
  show ?thesis by blast
qed

subsection \<open>The parallel-GST notebook\<close>

lemma mpi_gst_kwargs_comm: "map_of (mpi_gst_kwargs c) ''comm'' = Some (PyComm c)"
  by (simp add: mpi_gst_kwargs_def)

lemma mpi_gst_has_comm: "\<exists>kv \<in> set (mpi_gst_kwargs c). has_comm (snd kv)"
  by (simp add: mpi_gst_kwargs_def)

text \<open>The script never touches the data-set file, and the data set it works on is the file's.\<close>

lemma mpi_script_dataset:
  assumes "mpi_script L c w = (r, w')"
  shows "files w' mpi_dataset_file = files w mpi_dataset_file \<and>
    (\<forall>ds res. r = Inr (ds, res) \<longrightarrow>
       (\<exists>text gs. files w mpi_dataset_file = Some text \<and> load_dataset L text = Inr ds \<and>
          do_long_sequence_gst L ds gs (std1Q_XYI_fiducials L) (std1Q_XYI_fiducials L)
            (std1Q_XYI_germs L) maxLengths_1Q (mpi_gst_kwargs c) = Inr res))"
  using assms
  by (auto simp: mpi_script_def py_defs io_defs path_defs Let_def
      split: sum.splits prod.splits option.splits if_splits)

lemma mpi_script_trace:
  assumes "mpi_script L c w = (r, w')"
  shows "\<exists>evs. trace w' = trace w @ evs \<and> filter is_generate evs = [] \<and>
     (comm_events evs = [GetRank c] \<or>
      comm_events evs = [GetRank c, Lib ''pygsti.do_long_sequence_gst'' (mpi_gst_kwargs c) False] \<or>
      comm_events evs = [GetRank c, Lib ''pygsti.do_long_sequence_gst'' (mpi_gst_kwargs c) True,
                         GetRank c, GetRank c])"
  using assms
  by (auto simp: mpi_script_def py_defs io_defs Let_def comm_events_def mpi_gst_has_comm
        uses_comm_def is_generate_def
      split: sum.splits prod.splits option.splits if_splits)

text \<open>A process whose rank is not 0 leaves the file system as it found it.\<close>

lemma mpi_script_frame:
  assumes "mpi_script L c w = (r, w')" "Get_rank c \<noteq> 0"
  shows "files w' = files w"
  using assms
  by (auto simp: mpi_script_def py_defs io_defs Let_def
      split: sum.splits prod.splits option.splits if_splits)

lemma run_ranks_dataset:
  assumes "run_ranks (mpi_script L) cs w = (rs, w')"
  shows "files w' mpi_dataset_file = files w mpi_dataset_file \<and>
    length rs = length cs \<and>
    (\<exists>evs. trace w' = trace w @ evs \<and> filter is_generate evs = []) \<and>
    (\<forall>ds res. Inr (ds, res) \<in> set rs \<longrightarrow>
       (\<exists>text gs c. files w mpi_dataset_file = Some text \<and> load_dataset L text = Inr ds \<and>
          do_long_sequence_gst L ds gs (std1Q_XYI_fiducials L) (std1Q_XYI_fiducials L)
            (std1Q_XYI_germs L) maxLengths_1Q (mpi_gst_kwargs c) = Inr res))"
  using assms
proof (induction cs arbitrary: w rs w')
  case Nil
  then show ?case by simp
next
  case (Cons c cs)
  from Cons.prems obtain r w1 rs1 where
    s: "mpi_script L c w = (r, w1)" and t: "run_ranks (mpi_script L) cs w1 = (rs1, w')"
    and rs: "rs = r # rs1"
    by (auto split: prod.splits)
  note a = mpi_script_dataset [OF s] mpi_script_trace [OF s]
  note b = Cons.IH [OF t]
  from a b have "files w' mpi_dataset_file = files w mpi_dataset_file" by simp
  moreover from b rs have "length rs = length (c # cs)" by simp
  moreover from a(2) b obtain e1 e2 where "trace w1 = trace w @ e1" "filter is_generate e1 = []"
      "trace w' = trace w1 @ e2" "filter is_generate e2 = []" by blast
  then have "trace w' = trace w @ (e1 @ e2) \<and> filter is_generate (e1 @ e2) = []" by simp
  then have "\<exists>evs. trace w' = trace w @ evs \<and> filter is_generate evs = []" by blast
  moreover have "\<forall>ds res. Inr (ds, res) \<in> set rs \<longrightarrow>
       (\<exists>text gs c. files w mpi_dataset_file = Some text \<and> load_dataset L text = Inr ds \<and>
          do_long_sequence_gst L ds gs (std1Q_XYI_fiducials L) (std1Q_XYI_fiducials L)
            (std1Q_XYI_germs L) maxLengths_1Q (mpi_gst_kwargs c) = Inr res)"
  proof (intro allI impI)
    fix ds res
    assume "Inr (ds, res) \<in> set rs"
    with rs have "r = Inr (ds, res) \<or> Inr (ds, res) \<in> set rs1" by auto
    then show "\<exists>text gs c. files w mpi_dataset_file = Some text \<and> load_dataset L text = Inr ds \<and>
          do_long_sequence_gst L ds gs (std1Q_XYI_fiducials L) (std1Q_XYI_fiducials L)
            (std1Q_XYI_germs L) maxLengths_1Q (mpi_gst_kwargs c) = Inr res"
    proof
      assume "r = Inr (ds, res)"
      with a(1) show ?thesis by blast
    next
      assume "Inr (ds, res) \<in> set rs1"
      with b a(1) show ?thesis by simp
    qed
  qed
  ultimately show ?case by blast
qed

lemma parallel_cell1_result:
  assumes "parallel_cell1 L w = (Inr (exps, ds), w1)"
  shows "\<exists>gsd text.
     make_lsgst_experiment_list L (GateLabels (gates_keys L (std1Q_XYI_gs_target L)))
       (std1Q_XYI_fiducials L) (std1Q_XYI_fiducials L) (std1Q_XYI_germs L) maxLengths_1Q =
       Inr exps \<and>
     generate_fake_data L gsd exps 1000 ''binomial'' 1234 = Inr ds \<and>
     write_dataset L ds = Inr text \<and> files w1 mpi_dataset_file = Some text \<and>
     trace w1 = trace w @
       [Lib ''gs_target.depolarize'' depolarize_kwargs True,
        Lib ''pygsti.construction.make_lsgst_experiment_list'' [] True,
        Lib ''pygsti.construction.generate_fake_data'' (binomial_kwargs 1000) True,
        Lib ''pygsti.io.write_dataset'' [] True,
        OpenWrite mpi_dataset_file]"
  using assms
  by (auto simp: parallel_cell1_def py_defs io_defs Let_def split: sum.splits prod.splits)

lemma parallel_cell2_result:
  "parallel_cell2 w = (r, w') \<Longrightarrow>
   r = Inr () \<and> files w' mpi_dataset_file = files w mpi_dataset_file \<and>
   trace w' = trace w @ [OpenWrite mpi_script_file]"
  by (auto simp: parallel_cell2_def py_defs path_defs)

lemma parallel_run_result:
  assumes "fst (parallel_run L w) = Inr (exps, ds, outcomes)"
  shows "\<exists>gsd text post.
     make_lsgst_experiment_list L (GateLabels (gates_keys L (std1Q_XYI_gs_target L)))
       (std1Q_XYI_fiducials L) (std1Q_XYI_fiducials L) (std1Q_XYI_germs L) maxLengths_1Q =
       Inr exps \<and>
     generate_fake_data L gsd exps 1000 ''binomial'' 1234 = Inr ds \<and>
     write_dataset L ds = Inr text \<and>
     files (snd (parallel_run L w)) mpi_dataset_file = Some text \<and>
     trace (snd (parallel_run L w)) = trace w @
       [Lib ''gs_target.depolarize'' depolarize_kwargs True,
        Lib ''pygsti.construction.make_lsgst_experiment_list'' [] True,
        Lib ''pygsti.construction.generate_fake_data'' (binomial_kwargs 1000) True,
        Lib ''pygsti.io.write_dataset'' [] True,
        OpenWrite mpi_dataset_file, OpenWrite mpi_script_file] @ post \<and>
     filter is_generate post = [] \<and>
     length outcomes = 3 \<and>
     (\<forall>d r. Inr (d, r) \<in> set outcomes \<longrightarrow>
        load_dataset L text = Inr d \<and>
        (\<exists>gs c. do_long_sequence_gst L d gs (std1Q_XYI_fiducials L) (std1Q_XYI_fiducials L)
           (std1Q_XYI_germs L) maxLengths_1Q (mpi_gst_kwargs c) = Inr r))"
proof -
  from assms obtain w1 where c1: "parallel_cell1 L w = (Inr (exps, ds), w1)"
    by (auto simp: parallel_run_def py_bind_def py_return_def split: sum.splits prod.splits)
  obtain r2 w2 where c2: "parallel_cell2 w1 = (r2, w2)" by (cases "parallel_cell2 w1")
  obtain rs w3 where c3: "run_ranks (mpi_script L) (comm_world 3) w2 = (rs, w3)"
    by (cases "run_ranks (mpi_script L) (comm_world 3) w2")
  note p2 = parallel_cell2_result [OF c2]
  from c1 c2 c3 p2 have run: "parallel_run L w = (Inr (exps, ds, rs), w3)"
    by (simp add: parallel_run_def py_bind_def py_return_def mpiexec_def)
  with assms have out: "outcomes = rs" by simp
  from parallel_cell1_result [OF c1] obtain gsd dstext where
    p1: "make_lsgst_experiment_list L (GateLabels (gates_keys L (std1Q_XYI_gs_target L)))
       (std1Q_XYI_fiducials L) (std1Q_XYI_fiducials L) (std1Q_XYI_germs L) maxLengths_1Q =
       Inr exps"
     "generate_fake_data L gsd exps 1000 ''binomial'' 1234 = Inr ds"
     "write_dataset L ds = Inr dstext" "files w1 mpi_dataset_file = Some dstext"
     "trace w1 = trace w @
       [Lib ''gs_target.depolarize'' depolarize_kwargs True,
        Lib ''pygsti.construction.make_lsgst_experiment_list'' [] True,
        Lib ''pygsti.construction.generate_fake_data'' (binomial_kwargs 1000) True,
        Lib ''pygsti.io.write_dataset'' [] True,
        OpenWrite mpi_dataset_file]"
    by blast
  note p3 = run_ranks_dataset [OF c3]
  from p3 obtain post where post: "trace w3 = trace w2 @ post" "filter is_generate post = []"
    by blast
  have f2: "files w2 mpi_dataset_file = Some dstext" using p1 p2 by simp
  have "files (snd (parallel_run L w)) mpi_dataset_file = Some dstext"
    using run p3 f2 by simp
  moreover have "trace (snd (parallel_run L w)) = trace w @
       [Lib ''gs_target.depolarize'' depolarize_kwargs True,
        Lib ''pygsti.construction.make_lsgst_experiment_list'' [] True,
        Lib ''pygsti.construction.generate_fake_data'' (binomial_kwargs 1000) True,
        Lib ''pygsti.io.write_dataset'' [] True,
        OpenWrite mpi_dataset_file, OpenWrite mpi_script_file] @ post"
    using run post p1(5) p2 by simp
  moreover have "length outcomes = 3"
    using p3 out by (simp add: comm_world_def)
  moreover have "\<forall>d r. Inr (d, r) \<in> set outcomes \<longrightarrow>
        load_dataset L dstext = Inr d \<and>
        (\<exists>gs c. do_long_sequence_gst L d gs (std1Q_XYI_fiducials L) (std1Q_XYI_fiducials L)
           (std1Q_XYI_germs L) maxLengths_1Q (mpi_gst_kwargs c) = Inr r)"
    using p3 out f2 by fastforce
  ultimately show ?thesis using p1(1,2,3) post(2) by blast
qed

lemma comm_world_3:
  "comm_world 3 = [\<lparr>Get_rank = 0, Get_size = 3\<rparr>, \<lparr>Get_rank = 1, Get_size = 3\<rparr>,
                   \<lparr>Get_rank = 2, Get_size = 3\<rparr>]"
  by (simp add: comm_world_def upt_rec)

lemma parallel_run_example:
  "fst (parallel_run example_pygsti (initial_world Map.empty)) =
     Inr (example_experiments, example_dataset 1000, example_outcomes)"
  by (simp add: parallel_run_def parallel_cell1_def parallel_cell2_def mpiexec_def comm_world_3
      mpi_script_def py_defs io_defs path_defs Let_def example_defs depolarize_kwargs_def
      binomial_kwargs_def)

text \<open>
  Claim C6. In a completed run of the first three cells of the parallel-GST notebook from
  a fresh kernel, the data set is generated by the one call of \<^verbatim>\<open>generate_fake_data\<close> in
  the first cell, with seed 1234, and is written to the data-set file before the script
  file is written and the processes start; the processes generate no data. Every process
  that completes has loaded the data set that this file holds, so the data set does not
  depend on the rank. Two runs of the script on file systems that agree on the data-set
  file load the same data set, whatever their communicators.
\<close>

theorem parallel_dataset_generated_once:
  "(fst (parallel_run L (initial_world fs)) = Inr (exps, ds, outcomes) \<longrightarrow>
      (\<exists>gsd text post.
         generate_fake_data L gsd exps 1000 ''binomial'' 1234 = Inr ds \<and>
         write_dataset L ds = Inr text \<and>
         files (snd (parallel_run L (initial_world fs))) mpi_dataset_file = Some text \<and>
         trace (snd (parallel_run L (initial_world fs))) =
           [Lib ''gs_target.depolarize'' depolarize_kwargs True,
            Lib ''pygsti.construction.make_lsgst_experiment_list'' [] True,
            Lib ''pygsti.construction.generate_fake_data'' (binomial_kwargs 1000) True,
            Lib ''pygsti.io.write_dataset'' [] True,
            OpenWrite mpi_dataset_file, OpenWrite mpi_script_file] @ post \<and>
         filter is_generate post = [] \<and>
         length outcomes = 3 \<and>
         (\<forall>d r. Inr (d, r) \<in> set outcomes \<longrightarrow> load_dataset L text = Inr d))) \<and>
   map_of (binomial_kwargs 1000) ''seed'' = Some (PyInt 1234) \<and>
   (fst (mpi_script L c1 w1) = Inr (d1, r1) \<and> fst (mpi_script L c2 w2) = Inr (d2, r2) \<and>
    files w1 mpi_dataset_file = files w2 mpi_dataset_file \<longrightarrow> d1 = d2)"
proof (intro conjI impI)
  assume "fst (parallel_run L (initial_world fs)) = Inr (exps, ds, outcomes)"
  from parallel_run_result [OF this]
  show "\<exists>gsd text post.
         generate_fake_data L gsd exps 1000 ''binomial'' 1234 = Inr ds \<and>
         write_dataset L ds = Inr text \<and>
         files (snd (parallel_run L (initial_world fs))) mpi_dataset_file = Some text \<and>
         trace (snd (parallel_run L (initial_world fs))) =
           [Lib ''gs_target.depolarize'' depolarize_kwargs True,
            Lib ''pygsti.construction.make_lsgst_experiment_list'' [] True,
            Lib ''pygsti.construction.generate_fake_data'' (binomial_kwargs 1000) True,
            Lib ''pygsti.io.write_dataset'' [] True,
            OpenWrite mpi_dataset_file, OpenWrite mpi_script_file] @ post \<and>
         filter is_generate post = [] \<and>
         length outcomes = 3 \<and>
         (\<forall>d r. Inr (d, r) \<in> set outcomes \<longrightarrow> load_dataset L text = Inr d)"
    by (simp add: initial_world_def) blast
next
  show "map_of (binomial_kwargs 1000) ''seed'' = Some (PyInt 1234)"
    by (simp add: binomial_kwargs_def)
next
  assume a: "fst (mpi_script L c1 w1) = Inr (d1, r1) \<and> fst (mpi_script L c2 w2) = Inr (d2, r2) \<and>
    files w1 mpi_dataset_file = files w2 mpi_dataset_file"
  obtain v1 where s1: "mpi_script L c1 w1 = (Inr (d1, r1), v1)"
    using a by (cases "mpi_script L c1 w1") simp
  obtain v2 where s2: "mpi_script L c2 w2 = (Inr (d2, r2), v2)"
    using a by (cases "mpi_script L c2 w2") simp
  from mpi_script_dataset [OF s1] mpi_script_dataset [OF s2] a show "d1 = d2" by auto
qed

lemma mpi_script_example:
  "fst (mpi_script example_pygsti rank0 example_mpi_world) = Inr ([([''Gi''], 1000)], ''results'') \<and>
   fst (mpi_script example_pygsti rank1 example_mpi_world) = Inr ([([''Gi''], 1000)], ''results'')"
  by (simp add: mpi_script_def py_defs io_defs path_defs Let_def example_defs rank0_def rank1_def
      example_mpi_world_def)

theorem parallel_dataset_generated_once_witness:
  "fst (parallel_run example_pygsti (initial_world Map.empty)) =
     Inr (example_experiments, example_dataset 1000, example_outcomes) \<and>
   (\<exists>gsd dstext post.
      generate_fake_data example_pygsti gsd example_experiments 1000 ''binomial'' 1234 =
        Inr (example_dataset 1000) \<and>
      write_dataset example_pygsti (example_dataset 1000) = Inr dstext \<and>
      files (snd (parallel_run example_pygsti (initial_world Map.empty))) mpi_dataset_file =
        Some dstext \<and>
      trace (snd (parallel_run example_pygsti (initial_world Map.empty))) =
        [Lib ''gs_target.depolarize'' depolarize_kwargs True,
         Lib ''pygsti.construction.make_lsgst_experiment_list'' [] True,
         Lib ''pygsti.construction.generate_fake_data'' (binomial_kwargs 1000) True,
         Lib ''pygsti.io.write_dataset'' [] True,
         OpenWrite mpi_dataset_file, OpenWrite mpi_script_file] @ post \<and>
      filter is_generate post = [] \<and>
      length example_outcomes = 3 \<and>
      (\<forall>d r. Inr (d, r) \<in> set example_outcomes \<longrightarrow> load_dataset example_pygsti dstext = Inr d)) \<and>
   fst (mpi_script example_pygsti rank0 example_mpi_world) = Inr ([([''Gi''], 1000)], ''results'') \<and>
   fst (mpi_script example_pygsti rank1 example_mpi_world) = Inr ([([''Gi''], 1000)], ''results'') \<and>
   files example_mpi_world mpi_dataset_file = files example_mpi_world mpi_dataset_file"
proof -
  note h = parallel_run_example
  from parallel_dataset_generated_once [of example_pygsti Map.empty example_experiments
      "example_dataset 1000" example_outcomes] h
  have "\<exists>gsd dstext post.
      generate_fake_data example_pygsti gsd example_experiments 1000 ''binomial'' 1234 =
        Inr (example_dataset 1000) \<and>
      write_dataset example_pygsti (example_dataset 1000) = Inr dstext \<and>
      files (snd (parallel_run example_pygsti (initial_world Map.empty))) mpi_dataset_file =
        Some dstext \<and>
      trace (snd (parallel_run example_pygsti (initial_world Map.empty))) =
        [Lib ''gs_target.depolarize'' depolarize_kwargs True,
         Lib ''pygsti.construction.make_lsgst_experiment_list'' [] True,
         Lib ''pygsti.construction.generate_fake_data'' (binomial_kwargs 1000) True,
         Lib ''pygsti.io.write_dataset'' [] True,
         OpenWrite mpi_dataset_file, OpenWrite mpi_script_file] @ post \<and>
      filter is_generate post = [] \<and>
      length example_outcomes = 3 \<and>
      (\<forall>d r. Inr (d, r) \<in> set example_outcomes \<longrightarrow> load_dataset example_pygsti dstext = Inr d)"
    by blast
  with h mpi_script_example show ?thesis by simp
qed

subsection \<open>Which experiment list the data is generated for\<close>

lemma context_notebook_result:
  assumes "fst (context_notebook L w) = Inr (exps', ds', res)"
  shows "\<exists>exps ds gsd gs.
     make_lsgst_experiment_list L (GateSet (std1Q_XYI_gs_target L)) (std1Q_XYI_fiducials L)
       (std1Q_XYI_fiducials L) (std1Q_XYI_germs L) maxLengths_1Q = Inr exps \<and>
     exps' = manipulate_gatestring_list exps rules \<and>
     generate_fake_data L gsd exps' 10000 ''binomial'' 1234 = Inr ds \<and>
     ds' = process_gate_strings ds (\<lambda>gstr. manipulate_gatestring gstr rev_rules) \<and>
     do_long_sequence_gst L ds' gs (std1Q_XYI_fiducials L) (std1Q_XYI_fiducials L)
       (std1Q_XYI_germs L) maxLengths_1Q [(''verbosity'', PyInt 2)] = Inr res"
proof -
  from assms obtain w1 where c2: "context_cell2 L w = (Inr (exps', ds'), w1)"
    and c3: "fst (context_cell3 L ds' w1) = Inr res"
    by (auto simp: context_notebook_def py_bind_def py_return_def split: sum.splits prod.splits)
  from c2 have "fst (context_cell2 L w) = Inr (exps', ds')" by simp
  from context_cell2_result [OF this] obtain exps ds gsd where
    *: "make_lsgst_experiment_list L (GateSet (std1Q_XYI_gs_target L)) (std1Q_XYI_fiducials L)
       (std1Q_XYI_fiducials L) (std1Q_XYI_germs L) maxLengths_1Q = Inr exps"
     "exps' = manipulate_gatestring_list exps rules"
     "generate_fake_data L gsd exps' 10000 ''binomial'' 1234 = Inr ds"
     "ds' = process_gate_strings ds (\<lambda>gstr. manipulate_gatestring gstr rev_rules)"
    by blast
  from c3 obtain gs where
    "do_long_sequence_gst L ds' gs (std1Q_XYI_fiducials L) (std1Q_XYI_fiducials L)
       (std1Q_XYI_germs L) maxLengths_1Q [(''verbosity'', PyInt 2)] = Inr res"
    by (auto simp: context_cell3_def py_defs split: sum.splits prod.splits)
  with * show ?thesis by blast
qed

lemma getting_started_result:
  assumes "fst (getting_started_notebook L w) = Inr (exps, ds, res)"
  shows "\<exists>gsd.
     make_lsgst_experiment_list L (GateSet (std1Q_XYI_gs_target L)) (std1Q_XYI_prepStrs L)
       (std1Q_XYI_effectStrs L) (std1Q_XYI_germs L) maxLengths_1Q = Inr exps \<and>
     generate_fake_data L gsd exps 1000 ''binomial'' 1234 = Inr ds \<and>
     do_stdpractice_gst L ds (std1Q_XYI_gs_target L) (std1Q_XYI_prepStrs L)
       (std1Q_XYI_effectStrs L) (std1Q_XYI_germs L) maxLengths_1Q [] = Inr res"
  using assms
  by (auto simp: getting_started_notebook_def getting_started_cell1_def getting_started_cell2_def
      py_defs io_defs Let_def split: sum.splits prod.splits)

lemma qutrit_result:
  assumes "fst (qutrit_notebook L w) = Inr (exps, ds, res)"
  shows "\<exists>gsd.
     make_lsgst_experiment_list L (GateLabels (gates_keys L (stdQT_XYIMS_gs_target L)))
       (stdQT_XYIMS_prepStrs L) (stdQT_XYIMS_effectStrs L) (stdQT_XYIMS_germs_lite L)
       maxLengths_QT = Inr exps \<and>
     generate_fake_data L gsd exps 500 ''multinomial'' 1234 = Inr ds \<and>
     do_stdpractice_gst L ds (stdQT_XYIMS_gs_target L) (stdQT_XYIMS_prepStrs L)
       (stdQT_XYIMS_effectStrs L) (stdQT_XYIMS_germs_lite L) maxLengths_QT qutrit_gst_kwargs =
       Inr res"
  using assms
  by (auto simp: qutrit_notebook_def py_defs io_defs Let_def split: sum.splits prod.splits)

lemma notebooks_example:
  "fst (getting_started_notebook example_pygsti (initial_world Map.empty)) =
     Inr (example_experiments, example_dataset 1000, ''results'')"
  "fst (qutrit_notebook example_pygsti (initial_world Map.empty)) =
     Inr (example_qutrit_experiments, example_qutrit_dataset, ''results'')"
  "fst (context_notebook example_pygsti (initial_world Map.empty)) =
     Inr (example_rewritten, example_dataset 10000, ''results'')"
  by (simp_all add: getting_started_notebook_def getting_started_cell1_def
      getting_started_cell2_def qutrit_notebook_def context_notebook_def context_cell2_def
      context_cell3_def py_defs io_defs Let_def example_defs example_qutrit_experiments_def
      example_qutrit_dataset_def depolarize_kwargs_def binomial_kwargs_def qutrit_gst_kwargs_def
      manipulate_gatestring_list_def process_gate_strings_def manipulate_gatestring.simps
      rules_def rev_rules_def)

lemma notebooks_example_io:
  "fst (getting_started_notebook example_pygsti_io (initial_world Map.empty)) =
     Inr (example_experiments, example_dataset 1000, ''results'')"
  "fst (qutrit_notebook example_pygsti_io (initial_world Map.empty)) =
     Inr (example_qutrit_experiments, example_qutrit_dataset, ''results'')"
  "fst (context_notebook example_pygsti_io (initial_world Map.empty)) =
     Inr (example_rewritten, example_dataset 10000, ''results'')"
  "fst (parallel_run example_pygsti_io (initial_world Map.empty)) =
     Inr (example_experiments, example_dataset 1000, example_outcomes_io)"
  by (simp_all add: getting_started_notebook_def getting_started_cell1_def
      getting_started_cell2_def qutrit_notebook_def context_notebook_def context_cell2_def
      context_cell3_def parallel_run_def parallel_cell1_def parallel_cell2_def mpiexec_def
      comm_world_3 mpi_script_def path_defs py_defs io_defs Let_def example_pygsti_io_def
      example_outcomes_io_def example_defs example_qutrit_experiments_def
      example_qutrit_dataset_def depolarize_kwargs_def binomial_kwargs_def qutrit_gst_kwargs_def
      manipulate_gatestring_list_def process_gate_strings_def manipulate_gatestring.simps
      rules_def rev_rules_def)

subsection \<open>The tutorial that loads its data set\<close>

lemmas t09_defs = tutorial09_notebook_def tutorial09_setup_def tutorial09_lsgst_def
  tutorial09_TP_def tutorial09_reduced_def tutorial09_stdprac_def tutorial09_customgo_def
  tutorial09_dump_def

lemma generates_nothing_return: "generates_nothing (py_return x)"
  by (simp add: generates_nothing_def py_return_def)

lemma generates_nothing_bind:
  assumes "generates_nothing m" "\<And>x. generates_nothing (f x)"
  shows "generates_nothing (py_bind m f)"
  unfolding generates_nothing_def
proof
  fix w
  from assms(1) obtain e1 where e1: "trace (snd (m w)) = trace w @ e1"
    "filter is_generate e1 = []" "filter is_make_list e1 = []"
    unfolding generates_nothing_def by blast
  show "\<exists>evs. trace (snd (py_bind m f w)) = trace w @ evs \<and> filter is_generate evs = [] \<and>
            filter is_make_list evs = []"
  proof (cases "m w")
    case (Pair r w1)
    show ?thesis
    proof (cases r)
      case (Inl e)
      with Pair e1 show ?thesis by (auto simp: py_bind_def)
    next
      case (Inr x)
      from assms(2) [of x] obtain e2 where e2: "trace (snd (f x w1)) = trace w1 @ e2"
        "filter is_generate e2 = []" "filter is_make_list e2 = []"
        unfolding generates_nothing_def by blast
      from Pair Inr e1 e2 have "trace (snd (py_bind m f w)) = trace w @ (e1 @ e2)"
        by (simp add: py_bind_def)
      with e1 e2 show ?thesis by (intro exI [of _ "e1 @ e2"]) simp
    qed
  qed
qed

lemma generates_nothing_libcall:
  assumes "name \<noteq> ''pygsti.construction.generate_fake_data''"
    "name \<noteq> ''pygsti.construction.make_lsgst_experiment_list''"
  shows "generates_nothing (\<lambda>w. libcall name kw (r w) w)"
  using assms
  by (auto simp: generates_nothing_def libcall_def record_event_def is_generate_def
      is_make_list_def)

lemma generates_nothing_libcall_const:
  assumes "name \<noteq> ''pygsti.construction.generate_fake_data''"
    "name \<noteq> ''pygsti.construction.make_lsgst_experiment_list''"
  shows "generates_nothing (libcall name kw r)"
  using generates_nothing_libcall [OF assms, of kw "\<lambda>w. r"] by simp

lemma generates_nothing_files:
  "generates_nothing (open_wb path)" "generates_nothing (file_write path s)"
  "generates_nothing (lib_writes written)"
  by (auto simp: generates_nothing_def open_wb_def file_write_def lib_writes_def record_event_def
      is_generate_def is_make_list_def)

lemmas generates_nothing_intros = generates_nothing_bind generates_nothing_return
  generates_nothing_libcall generates_nothing_libcall_const generates_nothing_files

lemma tutorial09_generates_nothing: "generates_nothing (tutorial09_notebook L)"
  unfolding t09_defs
  by (intro generates_nothing_intros; (simp add: split_def)?; intro generates_nothing_intros)?

text \<open>The tutorial builds no experiment list with \<^verbatim>\<open>make_lsgst_experiment_list\<close> and generates no data.\<close>

lemma tutorial09_no_generation:
  "filter is_generate (trace (snd (tutorial09_notebook L (initial_world fs)))) = [] \<and>
   filter is_make_list (trace (snd (tutorial09_notebook L (initial_world fs)))) = []"
  using tutorial09_generates_nothing [of L]
  by (auto simp: generates_nothing_def initial_world_def
      dest!: spec [of _ "\<lparr>files = fs, trace = []\<rparr>"])

lemma tutorial09_result:
  "fst (tutorial09_notebook L (initial_world fs)) = Inr (ds, res) \<Longrightarrow>
   (\<exists>written. load_dataset_cached L fs example_dataset_file = Inr (ds, written)) \<and>
   do_long_sequence_gst L ds (std1Q_XYI_gs_target L) (std1Q_XYI_prepStrs L)
     (std1Q_XYI_effectStrs L) (std1Q_XYI_germs L) maxLengths_1Q [] = Inr res"
  by (auto simp: t09_defs py_defs initial_world_def split: sum.splits prod.splits)

lemma tutorial09_example:
  "fst (tutorial09_notebook example_drivers (initial_world example_tutorial_files)) =
     Inr ([([''Gi''], 1000)], ''results'')"
  by (simp add: t09_defs py_defs initial_world_def example_drivers_def example_pygsti_def
      pygsti.defs pygsti_drivers.defs example_tutorial_files_def example_dataset_file_def
      maxLengths_1Q_def modes_kwargs_def customgo_kwargs_def itemWeights_kwargs_def
      structs_kwargs_def)

text \<open>
  Claim C5 as stated fails on two notebooks that run GST on simulated data. In the
  context-dependence notebook the list that \<^verbatim>\<open>make_lsgst_experiment_list\<close> returns is
  rewritten by \<^verbatim>\<open>manipulate_gatestring_list\<close> before the data is generated: on the example
  library the notebook completes, the list it generates data for is \<^verbatim>\<open>example_rewritten\<close>,
  and the list \<^verbatim>\<open>make_lsgst_experiment_list\<close> returned is \<^verbatim>\<open>example_experiments\<close>, a
  different list. The tutorial on the high-level interface completes its GST runs on a
  data set it loads from a file, and its run has no call of
  \<^verbatim>\<open>make_lsgst_experiment_list\<close> and no call of \<^verbatim>\<open>generate_fake_data\<close>.
\<close>

theorem experiment_list_not_as_claimed:
  "fst (context_notebook example_pygsti (initial_world Map.empty)) =
     Inr (example_rewritten, example_dataset 10000, ''results'') \<and>
   make_lsgst_experiment_list example_pygsti (GateSet (std1Q_XYI_gs_target example_pygsti))
     (std1Q_XYI_fiducials example_pygsti) (std1Q_XYI_fiducials example_pygsti)
     (std1Q_XYI_germs example_pygsti) maxLengths_1Q = Inr example_experiments \<and>
   example_rewritten \<noteq> example_experiments \<and>
   fst (tutorial09_notebook example_drivers (initial_world example_tutorial_files)) =
     Inr ([([''Gi''], 1000)], ''results'') \<and>
   filter is_make_list
     (trace (snd (tutorial09_notebook example_drivers (initial_world example_tutorial_files)))) =
     [] \<and>
   filter is_generate
     (trace (snd (tutorial09_notebook example_drivers (initial_world example_tutorial_files)))) =
     []"
  using tutorial09_no_generation [of example_drivers example_tutorial_files]
  by (simp add: notebooks_example(3) tutorial09_example) (simp add: example_defs)

text \<open>
  Claim C5, amended. The notebooks that run GST on simulated data are the Getting Started
  tutorial, the qutrit example, the parallel-GST tutorial, the context-dependence example
  and the tutorial on the high-level interface. In each of the first four the experiment
  design is what \<^verbatim>\<open>make_lsgst_experiment_list\<close> returns for the target gates, the
  preparation fiducials, the measurement fiducials, the germs and the maximum lengths. In
  the Getting Started, qutrit and parallel-GST notebooks that same list is the one the
  data set is generated for, and the GST driver is run on that data set; in the
  parallel-GST notebook the data set reaches the driver through the data-set file, so
  every process runs the driver on what \<^verbatim>\<open>load_dataset\<close> reads from the text
  \<^verbatim>\<open>write_dataset\<close> wrote, which is the generated data set itself whenever \<^verbatim>\<open>load_dataset\<close>
  reads it back. In the context-dependence notebook the data is generated for that list
  rewritten by the rule \<^verbatim>\<open>GxGi => GxGi2\<close>, and the driver runs on the generated data set
  with its gate strings rewritten by \<^verbatim>\<open>Gi2 => Gi\<close>. The tutorial on the high-level
  interface calls neither \<^verbatim>\<open>make_lsgst_experiment_list\<close> nor \<^verbatim>\<open>generate_fake_data\<close>: its driver
  runs on the data set loaded from \<^verbatim>\<open>tutorial_files/Example_Dataset.txt\<close>.
\<close>

theorem experiment_list_feeds_data:
  "(fst (getting_started_notebook L wa) = Inr (expsa, dsa, resa) \<longrightarrow>
      (\<exists>gsd.
         make_lsgst_experiment_list L (GateSet (std1Q_XYI_gs_target L)) (std1Q_XYI_prepStrs L)
           (std1Q_XYI_effectStrs L) (std1Q_XYI_germs L) maxLengths_1Q = Inr expsa \<and>
         generate_fake_data L gsd expsa 1000 ''binomial'' 1234 = Inr dsa \<and>
         do_stdpractice_gst L dsa (std1Q_XYI_gs_target L) (std1Q_XYI_prepStrs L)
           (std1Q_XYI_effectStrs L) (std1Q_XYI_germs L) maxLengths_1Q [] = Inr resa)) \<and>
   (fst (qutrit_notebook L wb) = Inr (expsb, dsb, resb) \<longrightarrow>
      (\<exists>gsd.
         make_lsgst_experiment_list L (GateLabels (gates_keys L (stdQT_XYIMS_gs_target L)))
           (stdQT_XYIMS_prepStrs L) (stdQT_XYIMS_effectStrs L) (stdQT_XYIMS_germs_lite L)
           maxLengths_QT = Inr expsb \<and>
         generate_fake_data L gsd expsb 500 ''multinomial'' 1234 = Inr dsb \<and>
         do_stdpractice_gst L dsb (stdQT_XYIMS_gs_target L) (stdQT_XYIMS_prepStrs L)
           (stdQT_XYIMS_effectStrs L) (stdQT_XYIMS_germs_lite L) maxLengths_QT
           qutrit_gst_kwargs = Inr resb)) \<and>
   (fst (parallel_run L wc) = Inr (expsc, dsc, outcomes) \<longrightarrow>
      (\<exists>gsd dstext.
         make_lsgst_experiment_list L (GateLabels (gates_keys L (std1Q_XYI_gs_target L)))
           (std1Q_XYI_fiducials L) (std1Q_XYI_fiducials L) (std1Q_XYI_germs L) maxLengths_1Q =
           Inr expsc \<and>
         generate_fake_data L gsd expsc 1000 ''binomial'' 1234 = Inr dsc \<and>
         write_dataset L dsc = Inr dstext \<and>
         (\<forall>d r. Inr (d, r) \<in> set outcomes \<longrightarrow>
            load_dataset L dstext = Inr d \<and>
            (\<exists>gs c. do_long_sequence_gst L d gs (std1Q_XYI_fiducials L)
               (std1Q_XYI_fiducials L) (std1Q_XYI_germs L) maxLengths_1Q (mpi_gst_kwargs c) =
               Inr r)))) \<and>
   (fst (parallel_run L wc) = Inr (expsc, dsc, outcomes) \<and> write_dataset L dsc = Inr written \<and>
    load_dataset L written = Inr dsc \<longrightarrow>
      (\<forall>d r. Inr (d, r) \<in> set outcomes \<longrightarrow>
         d = dsc \<and>
         (\<exists>gs c. do_long_sequence_gst L dsc gs (std1Q_XYI_fiducials L)
            (std1Q_XYI_fiducials L) (std1Q_XYI_germs L) maxLengths_1Q (mpi_gst_kwargs c) =
            Inr r))) \<and>
   (fst (context_notebook L wd) = Inr (expsd, dsd, resd) \<longrightarrow>
      (\<exists>exps ds gsd gs.
         make_lsgst_experiment_list L (GateSet (std1Q_XYI_gs_target L)) (std1Q_XYI_fiducials L)
           (std1Q_XYI_fiducials L) (std1Q_XYI_germs L) maxLengths_1Q = Inr exps \<and>
         expsd = manipulate_gatestring_list exps rules \<and>
         generate_fake_data L gsd expsd 10000 ''binomial'' 1234 = Inr ds \<and>
         dsd = process_gate_strings ds (\<lambda>gstr. manipulate_gatestring gstr rev_rules) \<and>
         do_long_sequence_gst L dsd gs (std1Q_XYI_fiducials L) (std1Q_XYI_fiducials L)
           (std1Q_XYI_germs L) maxLengths_1Q [(''verbosity'', PyInt 2)] = Inr resd)) \<and>
   filter is_make_list (trace (snd (tutorial09_notebook D (initial_world fs)))) = [] \<and>
   filter is_generate (trace (snd (tutorial09_notebook D (initial_world fs)))) = [] \<and>
   (fst (tutorial09_notebook D (initial_world fs)) = Inr (dse, rese) \<longrightarrow>
      (\<exists>cache. load_dataset_cached D fs example_dataset_file = Inr (dse, cache)) \<and>
      do_long_sequence_gst D dse (std1Q_XYI_gs_target D) (std1Q_XYI_prepStrs D)
        (std1Q_XYI_effectStrs D) (std1Q_XYI_germs D) maxLengths_1Q [] = Inr rese)"
proof (intro conjI impI)
  assume "fst (getting_started_notebook L wa) = Inr (expsa, dsa, resa)"
  then show "\<exists>gsd.
         make_lsgst_experiment_list L (GateSet (std1Q_XYI_gs_target L)) (std1Q_XYI_prepStrs L)
           (std1Q_XYI_effectStrs L) (std1Q_XYI_germs L) maxLengths_1Q = Inr expsa \<and>
         generate_fake_data L gsd expsa 1000 ''binomial'' 1234 = Inr dsa \<and>
         do_stdpractice_gst L dsa (std1Q_XYI_gs_target L) (std1Q_XYI_prepStrs L)
           (std1Q_XYI_effectStrs L) (std1Q_XYI_germs L) maxLengths_1Q [] = Inr resa"
    by (rule getting_started_result)
next
  assume "fst (qutrit_notebook L wb) = Inr (expsb, dsb, resb)"
  then show "\<exists>gsd.
         make_lsgst_experiment_list L (GateLabels (gates_keys L (stdQT_XYIMS_gs_target L)))
           (stdQT_XYIMS_prepStrs L) (stdQT_XYIMS_effectStrs L) (stdQT_XYIMS_germs_lite L)
           maxLengths_QT = Inr expsb \<and>
         generate_fake_data L gsd expsb 500 ''multinomial'' 1234 = Inr dsb \<and>
         do_stdpractice_gst L dsb (stdQT_XYIMS_gs_target L) (stdQT_XYIMS_prepStrs L)
           (stdQT_XYIMS_effectStrs L) (stdQT_XYIMS_germs_lite L) maxLengths_QT
           qutrit_gst_kwargs = Inr resb"
    by (rule qutrit_result)
next
  assume "fst (parallel_run L wc) = Inr (expsc, dsc, outcomes)"
  from parallel_run_result [OF this]
  show "\<exists>gsd dstext.
         make_lsgst_experiment_list L (GateLabels (gates_keys L (std1Q_XYI_gs_target L)))
           (std1Q_XYI_fiducials L) (std1Q_XYI_fiducials L) (std1Q_XYI_germs L) maxLengths_1Q =
           Inr expsc \<and>
         generate_fake_data L gsd expsc 1000 ''binomial'' 1234 = Inr dsc \<and>
         write_dataset L dsc = Inr dstext \<and>
         (\<forall>d r. Inr (d, r) \<in> set outcomes \<longrightarrow>
            load_dataset L dstext = Inr d \<and>
            (\<exists>gs c. do_long_sequence_gst L d gs (std1Q_XYI_fiducials L)
               (std1Q_XYI_fiducials L) (std1Q_XYI_germs L) maxLengths_1Q (mpi_gst_kwargs c) =
               Inr r))"
    by blast
next
  assume a: "fst (parallel_run L wc) = Inr (expsc, dsc, outcomes) \<and>
    write_dataset L dsc = Inr written \<and> load_dataset L written = Inr dsc"
  then have run: "fst (parallel_run L wc) = Inr (expsc, dsc, outcomes)" by blast
  from parallel_run_result [OF run] a
  show "\<forall>d r. Inr (d, r) \<in> set outcomes \<longrightarrow>
         d = dsc \<and>
         (\<exists>gs c. do_long_sequence_gst L dsc gs (std1Q_XYI_fiducials L)
            (std1Q_XYI_fiducials L) (std1Q_XYI_germs L) maxLengths_1Q (mpi_gst_kwargs c) =
            Inr r)"
    by fastforce
next
  assume "fst (context_notebook L wd) = Inr (expsd, dsd, resd)"
  then show "\<exists>exps ds gsd gs.
         make_lsgst_experiment_list L (GateSet (std1Q_XYI_gs_target L)) (std1Q_XYI_fiducials L)
           (std1Q_XYI_fiducials L) (std1Q_XYI_germs L) maxLengths_1Q = Inr exps \<and>
         expsd = manipulate_gatestring_list exps rules \<and>
         generate_fake_data L gsd expsd 10000 ''binomial'' 1234 = Inr ds \<and>
         dsd = process_gate_strings ds (\<lambda>gstr. manipulate_gatestring gstr rev_rules) \<and>
         do_long_sequence_gst L dsd gs (std1Q_XYI_fiducials L) (std1Q_XYI_fiducials L)
           (std1Q_XYI_germs L) maxLengths_1Q [(''verbosity'', PyInt 2)] = Inr resd"
    by (rule context_notebook_result)
next
  show "filter is_make_list (trace (snd (tutorial09_notebook D (initial_world fs)))) = []"
    using tutorial09_no_generation [of D fs] by blast
next
  show "filter is_generate (trace (snd (tutorial09_notebook D (initial_world fs)))) = []"
    using tutorial09_no_generation [of D fs] by blast
next
  assume "fst (tutorial09_notebook D (initial_world fs)) = Inr (dse, rese)"
  from tutorial09_result [OF this]
  show "\<exists>cache. load_dataset_cached D fs example_dataset_file = Inr (dse, cache)" by blast
next
  assume "fst (tutorial09_notebook D (initial_world fs)) = Inr (dse, rese)"
  from tutorial09_result [OF this]
  show "do_long_sequence_gst D dse (std1Q_XYI_gs_target D) (std1Q_XYI_prepStrs D)
        (std1Q_XYI_effectStrs D) (std1Q_XYI_germs D) maxLengths_1Q [] = Inr rese" by blast
qed

theorem experiment_list_feeds_data_witness:
  "fst (getting_started_notebook example_pygsti_io (initial_world Map.empty)) =
     Inr (example_experiments, example_dataset 1000, ''results'') \<and>
   fst (qutrit_notebook example_pygsti_io (initial_world Map.empty)) =
     Inr (example_qutrit_experiments, example_qutrit_dataset, ''results'') \<and>
   fst (parallel_run example_pygsti_io (initial_world Map.empty)) =
     Inr (example_experiments, example_dataset 1000, example_outcomes_io) \<and>
   write_dataset example_pygsti_io (example_dataset 1000) = Inr ''dataset'' \<and>
   load_dataset example_pygsti_io ''dataset'' = Inr (example_dataset 1000) \<and>
   fst (context_notebook example_pygsti_io (initial_world Map.empty)) =
     Inr (example_rewritten, example_dataset 10000, ''results'') \<and>
   fst (tutorial09_notebook example_drivers (initial_world example_tutorial_files)) =
     Inr ([([''Gi''], 1000)], ''results'') \<and>
   (\<exists>gsd.
      make_lsgst_experiment_list example_pygsti_io
        (GateSet (std1Q_XYI_gs_target example_pygsti_io))
        (std1Q_XYI_prepStrs example_pygsti_io) (std1Q_XYI_effectStrs example_pygsti_io)
        (std1Q_XYI_germs example_pygsti_io) maxLengths_1Q = Inr example_experiments \<and>
      generate_fake_data example_pygsti_io gsd example_experiments 1000 ''binomial'' 1234 =
        Inr (example_dataset 1000) \<and>
      do_stdpractice_gst example_pygsti_io (example_dataset 1000)
        (std1Q_XYI_gs_target example_pygsti_io) (std1Q_XYI_prepStrs example_pygsti_io)
        (std1Q_XYI_effectStrs example_pygsti_io) (std1Q_XYI_germs example_pygsti_io)
        maxLengths_1Q [] = Inr ''results'') \<and>
   (\<exists>gsd.
      make_lsgst_experiment_list example_pygsti_io
        (GateLabels (gates_keys example_pygsti_io (stdQT_XYIMS_gs_target example_pygsti_io)))
        (stdQT_XYIMS_prepStrs example_pygsti_io) (stdQT_XYIMS_effectStrs example_pygsti_io)
        (stdQT_XYIMS_germs_lite example_pygsti_io) maxLengths_QT =
        Inr example_qutrit_experiments \<and>
      generate_fake_data example_pygsti_io gsd example_qutrit_experiments 500 ''multinomial''
        1234 = Inr example_qutrit_dataset \<and>
      do_stdpractice_gst example_pygsti_io example_qutrit_dataset
        (stdQT_XYIMS_gs_target example_pygsti_io) (stdQT_XYIMS_prepStrs example_pygsti_io)
        (stdQT_XYIMS_effectStrs example_pygsti_io) (stdQT_XYIMS_germs_lite example_pygsti_io)
        maxLengths_QT qutrit_gst_kwargs = Inr ''results'') \<and>
   (\<exists>gsd dstext.
      make_lsgst_experiment_list example_pygsti_io
        (GateLabels (gates_keys example_pygsti_io (std1Q_XYI_gs_target example_pygsti_io)))
        (std1Q_XYI_fiducials example_pygsti_io) (std1Q_XYI_fiducials example_pygsti_io)
        (std1Q_XYI_germs example_pygsti_io) maxLengths_1Q = Inr example_experiments \<and>
      generate_fake_data example_pygsti_io gsd example_experiments 1000 ''binomial'' 1234 =
        Inr (example_dataset 1000) \<and>
      write_dataset example_pygsti_io (example_dataset 1000) = Inr dstext \<and>
      (\<forall>d r. Inr (d, r) \<in> set example_outcomes_io \<longrightarrow>
         load_dataset example_pygsti_io dstext = Inr d \<and>
         (\<exists>gs c. do_long_sequence_gst example_pygsti_io d gs
            (std1Q_XYI_fiducials example_pygsti_io) (std1Q_XYI_fiducials example_pygsti_io)
            (std1Q_XYI_germs example_pygsti_io) maxLengths_1Q (mpi_gst_kwargs c) = Inr r))) \<and>
   Inr (example_dataset 1000, ''results'') \<in> set example_outcomes_io \<and>
   (\<exists>gs c. do_long_sequence_gst example_pygsti_io (example_dataset 1000) gs
      (std1Q_XYI_fiducials example_pygsti_io) (std1Q_XYI_fiducials example_pygsti_io)
      (std1Q_XYI_germs example_pygsti_io) maxLengths_1Q (mpi_gst_kwargs c) = Inr ''results'') \<and>
   (\<exists>exps ds gsd gs.
      make_lsgst_experiment_list example_pygsti_io
        (GateSet (std1Q_XYI_gs_target example_pygsti_io))
        (std1Q_XYI_fiducials example_pygsti_io) (std1Q_XYI_fiducials example_pygsti_io)
        (std1Q_XYI_germs example_pygsti_io) maxLengths_1Q = Inr exps \<and>
      example_rewritten = manipulate_gatestring_list exps rules \<and>
      generate_fake_data example_pygsti_io gsd example_rewritten 10000 ''binomial'' 1234 =
        Inr ds \<and>
      example_dataset 10000 =
        process_gate_strings ds (\<lambda>gstr. manipulate_gatestring gstr rev_rules) \<and>
      do_long_sequence_gst example_pygsti_io (example_dataset 10000) gs
        (std1Q_XYI_fiducials example_pygsti_io) (std1Q_XYI_fiducials example_pygsti_io)
        (std1Q_XYI_germs example_pygsti_io) maxLengths_1Q [(''verbosity'', PyInt 2)] =
        Inr ''results'') \<and>
   filter is_make_list
     (trace (snd (tutorial09_notebook example_drivers (initial_world example_tutorial_files)))) =
     [] \<and>
   filter is_generate
     (trace (snd (tutorial09_notebook example_drivers (initial_world example_tutorial_files)))) =
     [] \<and>
   (\<exists>cache. load_dataset_cached example_drivers example_tutorial_files example_dataset_file =
      Inr ([([''Gi''], 1000)], cache)) \<and>
   do_long_sequence_gst example_drivers [([''Gi''], 1000)] (std1Q_XYI_gs_target example_drivers)
     (std1Q_XYI_prepStrs example_drivers) (std1Q_XYI_effectStrs example_drivers)
     (std1Q_XYI_germs example_drivers) maxLengths_1Q [] = Inr ''results''"
proof -
  note t = experiment_list_feeds_data [where L = example_pygsti_io
      and wa = "initial_world Map.empty" and expsa = example_experiments
      and dsa = "example_dataset 1000" and resa = "''results''"
      and wb = "initial_world Map.empty" and expsb = example_qutrit_experiments
      and dsb = example_qutrit_dataset and resb = "''results''"
      and wc = "initial_world Map.empty" and expsc = example_experiments
      and dsc = "example_dataset 1000" and outcomes = example_outcomes_io
      and written = "''dataset''"
      and wd = "initial_world Map.empty" and expsd = example_rewritten
      and dsd = "example_dataset 10000" and resd = "''results''"
      and D = example_drivers and fs = example_tutorial_files
      and dse = "[([''Gi''], 1000)]" and rese = "''results''"]
  have w: "write_dataset example_pygsti_io (example_dataset 1000) = Inr ''dataset''"
    "load_dataset example_pygsti_io ''dataset'' = Inr (example_dataset 1000)"
    by (simp_all add: example_pygsti_io_def example_pygsti_def)
  have m: "Inr (example_dataset 1000, ''results'') \<in> set example_outcomes_io"
    by (simp add: example_outcomes_io_def)
  note h = notebooks_example_io tutorial09_example w m
  from t h show ?thesis by (intro conjI) blast+
qed

subsection \<open>The communicator\<close>

lemma bub_kwargs_comm: "map_of (build_up_breadth_kwargs fg (Some c)) ''comm'' = Some (PyComm c)"
  by (simp add: build_up_breadth_kwargs_def py_of_comm_def)

lemma bub_has_comm: "\<exists>kv \<in> set (build_up_breadth_kwargs fg (Some c)). has_comm (snd kv)"
  by (simp add: build_up_breadth_kwargs_def py_of_comm_def)

text \<open>One round of the candidate loop: it raises, or goes on after one library call.\<close>

lemma candidate_loop_step:
  "\<exists>ev. \<not> uses_comm ev \<and>
     (candidate_loop L globals gs seedStart i (item # items) acc w = (Inl (NameError ''pc''), w) \<or>
      (\<exists>e. candidate_loop L globals gs seedStart i (item # items) acc w =
             (Inl e, w\<lparr>trace := trace w @ [ev]\<rparr>)) \<or>
      (\<exists>new. candidate_loop L globals gs seedStart i (item # items) acc w =
             candidate_loop L globals gs seedStart (i + 1) items (acc @ new)
               (w\<lparr>trace := trace w @ [ev]\<rparr>)))"
proof -
  obtain germLength count where item: "item = (germLength, count)" by (cases item)
  show ?thesis
  proof (cases "count = PyStr ''all upto''")
    case True
    then show ?thesis
      by (intro exI [of _ "Lib ''pc.list_all_gatestrings_without_powers_and_cycles''
               [(''maxLength'', PyInt (int germLength))]
               (returned (list_all_gatestrings_without_powers_and_cycles L (germ_gates_keys L gs)
                  [(''maxLength'', PyInt (int germLength))]))"])
         (auto simp: item py_defs uses_comm_def split: sum.splits)
  next
    case False
    then show ?thesis
      by (intro exI [of _ "Lib ''pc.list_random_gatestrings_onelen''
               [(''seed'', PyInt (int (seedStart + i)))]
               (returned (list_random_gatestrings_onelen L (germ_gates_keys L gs) germLength count
                  [(''seed'', PyInt (int (seedStart + i)))]))"])
         (auto simp: item py_defs uses_comm_def split: sum.splits)
  qed
qed

lemma candidate_loop_frame:
  "candidate_loop L globals gs seedStart i items acc w = (r, w') \<Longrightarrow>
   files w' = files w \<and> (\<exists>evs. trace w' = trace w @ evs \<and> comm_events evs = [])"
proof (induction items arbitrary: i acc w)
  case Nil
  then show ?case by (auto simp: py_defs comm_events_def)
next
  case (Cons item items)
  from candidate_loop_step [of L globals gs seedStart i item items acc w]
  obtain ev where ev: "\<not> uses_comm ev" and
    c: "candidate_loop L globals gs seedStart i (item # items) acc w = (Inl (NameError ''pc''), w) \<or>
      (\<exists>e. candidate_loop L globals gs seedStart i (item # items) acc w =
             (Inl e, w\<lparr>trace := trace w @ [ev]\<rparr>)) \<or>
      (\<exists>new. candidate_loop L globals gs seedStart i (item # items) acc w =
             candidate_loop L globals gs seedStart (i + 1) items (acc @ new)
               (w\<lparr>trace := trace w @ [ev]\<rparr>))"
    by blast
  from c show ?case
  proof (elim disjE exE)
    assume "candidate_loop L globals gs seedStart i (item # items) acc w =
              (Inl (NameError ''pc''), w)"
    with Cons.prems show ?thesis by (auto simp: comm_events_def)
  next
    fix e
    assume "candidate_loop L globals gs seedStart i (item # items) acc w =
             (Inl e, w\<lparr>trace := trace w @ [ev]\<rparr>)"
    with Cons.prems ev show ?thesis by (auto simp: comm_events_def)
  next
    fix new
    assume "candidate_loop L globals gs seedStart i (item # items) acc w =
             candidate_loop L globals gs seedStart (i + 1) items (acc @ new)
               (w\<lparr>trace := trace w @ [ev]\<rparr>)"
    with Cons.prems have "candidate_loop L globals gs seedStart (i + 1) items (acc @ new)
               (w\<lparr>trace := trace w @ [ev]\<rparr>) = (r, w')" by simp
    from Cons.IH [OF this] ev show ?thesis by (auto simp: comm_events_def)
  qed
qed

text \<open>
  The germ-selection script never changes the file system, and the process of rank 0
  never completes it: it raises at the latest when it resolves the name \<^verbatim>\<open>pickle\<close>.
\<close>

lemma germsel_script_behaviour:
  "files (snd (germsel_script L c w)) = files w \<and>
   (Get_rank c = 0 \<longrightarrow> isl (fst (germsel_script L c w))) \<and>
   (\<exists>evs. trace (snd (germsel_script L c w)) = trace w @ evs \<and>
      (comm_events evs = [] \<or>
       comm_events evs = [Lib ''germsel.build_up_breadth'' (germsel_kwargs L c) False] \<or>
       comm_events evs = [Lib ''germsel.build_up_breadth'' (germsel_kwargs L c) True, GetRank c]))"
proof -
  obtain r1 w1 where cl: "candidate_loop L germsel_globals (std2Q_XYICNOT_gs_target L) 4 0
       candidate_counts_2Q [] w = (r1, w1)"
    by (cases "candidate_loop L germsel_globals (std2Q_XYICNOT_gs_target L) 4 0
       candidate_counts_2Q [] w")
  from candidate_loop_frame [OF cl] obtain ev1 where
    w1: "files w1 = files w" "trace w1 = trace w @ ev1" "filter uses_comm ev1 = []"
    by (auto simp: comm_events_def)
  have hc: "\<exists>kv \<in> set (germsel_kwargs L c). has_comm (snd kv)"
    by (simp add: germsel_kwargs_def bub_has_comm)
  have g: "''time'' \<in> set germsel_globals" "''pygsti'' \<in> set germsel_globals"
    "''germsel'' \<in> set germsel_globals" "''pickle'' \<notin> set germsel_globals"
    by (simp_all add: germsel_globals_def)
  show ?thesis
    using cl w1 hc g
    by (cases r1)
       (auto simp: germsel_script_def do_greedy_germsel_def Let_def germsel_kwargs_def [symmetric]
          py_defs comm_events_def uses_comm_def
        split: sum.splits prod.splits)
qed

text \<open>When the steps before the driver succeed, the driver is called with the communicator.\<close>

lemma mpi_script_forward:
  assumes "set_all_parameterizations L (std1Q_XYI_gs_target L) ''TP'' = Inr gs"
    "fs mpi_dataset_file = Some dstext" "load_dataset L dstext = Inr ds"
  shows "comm_events (trace (snd (mpi_script L c (initial_world fs)))) =
      (case do_long_sequence_gst L ds gs (std1Q_XYI_fiducials L) (std1Q_XYI_fiducials L)
              (std1Q_XYI_germs L) maxLengths_1Q (mpi_gst_kwargs c) of
         Inl e \<Rightarrow> [GetRank c, Lib ''pygsti.do_long_sequence_gst'' (mpi_gst_kwargs c) False]
       | Inr res \<Rightarrow> [GetRank c, Lib ''pygsti.do_long_sequence_gst'' (mpi_gst_kwargs c) True,
                     GetRank c, GetRank c]) \<and>
    (Get_rank c \<noteq> 0 \<longrightarrow>
       fst (mpi_script L c (initial_world fs)) =
         map_sum id (Pair ds)
           (do_long_sequence_gst L ds gs (std1Q_XYI_fiducials L) (std1Q_XYI_fiducials L)
              (std1Q_XYI_germs L) maxLengths_1Q (mpi_gst_kwargs c)))"
  using assms
  by (auto simp: mpi_script_def py_defs io_defs Let_def comm_events_def mpi_gst_has_comm
        uses_comm_def initial_world_def
      split: sum.splits prod.splits option.splits)

lemma candidate_loop_fst:
  "fst (candidate_loop L globals gs seedStart i items acc w) = Inr cands \<Longrightarrow>
   \<exists>w1. candidate_loop L globals gs seedStart i items acc w = (Inr cands, w1)"
  by (cases "candidate_loop L globals gs seedStart i items acc w") simp

lemma germsel_script_forward:
  assumes "fst (candidate_loop G germsel_globals (std2Q_XYICNOT_gs_target G) 4 0
              candidate_counts_2Q [] (initial_world fs)) = Inr cands"
    "remove_duplicates G (map (\<lambda>gl. [gl]) (germ_gates_keys G (std2Q_XYICNOT_gs_target G)) @ cands)
       = Inr avail"
  shows "comm_events (trace (snd (germsel_script G c (initial_world fs)))) =
      (case build_up_breadth G (std2Q_XYICNOT_gs_target G) avail (germsel_kwargs G c) of
         Inl e \<Rightarrow> [Lib ''germsel.build_up_breadth'' (germsel_kwargs G c) False]
       | Inr germs \<Rightarrow> [Lib ''germsel.build_up_breadth'' (germsel_kwargs G c) True, GetRank c]) \<and>
    (Get_rank c \<noteq> 0 \<longrightarrow>
       fst (germsel_script G c (initial_world fs)) =
         build_up_breadth G (std2Q_XYICNOT_gs_target G) avail (germsel_kwargs G c))"
proof -
  from candidate_loop_fst [OF assms(1)] obtain w1 where
    cl: "candidate_loop G germsel_globals (std2Q_XYICNOT_gs_target G) 4 0
       candidate_counts_2Q [] (initial_world fs) = (Inr cands, w1)" by blast
  from candidate_loop_frame [OF cl] obtain ev1 where
    w1: "trace w1 = ev1" "filter uses_comm ev1 = []"
    by (auto simp: comm_events_def initial_world_def)
  have hc: "\<exists>kv \<in> set (germsel_kwargs G c). has_comm (snd kv)"
    by (simp add: germsel_kwargs_def bub_has_comm)
  have g: "''time'' \<in> set germsel_globals" "''pygsti'' \<in> set germsel_globals"
    "''germsel'' \<in> set germsel_globals" "''pickle'' \<notin> set germsel_globals"
    by (simp_all add: germsel_globals_def)
  show ?thesis
    using cl w1 hc g assms(2)
    by (auto simp: germsel_script_def do_greedy_germsel_def Let_def germsel_kwargs_def [symmetric]
          py_defs comm_events_def uses_comm_def
        split: sum.splits prod.splits)
qed

text \<open>
  Claim C3. In both MPI scripts the communicator \<^verbatim>\<open>MPI.COMM_WORLD\<close> of the process is the
  \<^verbatim>\<open>comm\<close> keyword argument of one library call (\<^verbatim>\<open>pygsti.do_long_sequence_gst\<close> in the
  parallel-GST script, \<^verbatim>\<open>germselection.build_up_breadth\<close> in the germ-selection script),
  and the only other operations of a run that involve a communicator are calls of
  \<^verbatim>\<open>Get_rank\<close> on it. In every run the events that involve a communicator have one of
  three shapes (the run stops before the library call, in it, or goes on after it).
  Whenever the steps before the library call succeed, the call is made with the
  communicator as its \<^verbatim>\<open>comm\<close> argument, the events that involve a communicator are that
  call and the \<^verbatim>\<open>Get_rank\<close> calls around it, and a process whose rank is not 0 returns
  what this call returns.
\<close>

theorem comm_pass_through:
  "(comm_events (trace (snd (mpi_script L c (initial_world fs)))) = [GetRank c] \<or>
    comm_events (trace (snd (mpi_script L c (initial_world fs)))) =
      [GetRank c, Lib ''pygsti.do_long_sequence_gst'' (mpi_gst_kwargs c) False] \<or>
    comm_events (trace (snd (mpi_script L c (initial_world fs)))) =
      [GetRank c, Lib ''pygsti.do_long_sequence_gst'' (mpi_gst_kwargs c) True,
       GetRank c, GetRank c]) \<and>
   map_of (mpi_gst_kwargs c) ''comm'' = Some (PyComm c) \<and>
   (comm_events (trace (snd (germsel_script G c (initial_world fs)))) = [] \<or>
    comm_events (trace (snd (germsel_script G c (initial_world fs)))) =
      [Lib ''germsel.build_up_breadth'' (germsel_kwargs G c) False] \<or>
    comm_events (trace (snd (germsel_script G c (initial_world fs)))) =
      [Lib ''germsel.build_up_breadth'' (germsel_kwargs G c) True, GetRank c]) \<and>
   map_of (germsel_kwargs G c) ''comm'' = Some (PyComm c) \<and>
   (set_all_parameterizations L (std1Q_XYI_gs_target L) ''TP'' = Inr gs \<and>
    fs mpi_dataset_file = Some dstext \<and> load_dataset L dstext = Inr ds \<longrightarrow>
      comm_events (trace (snd (mpi_script L c (initial_world fs)))) =
        (case do_long_sequence_gst L ds gs (std1Q_XYI_fiducials L) (std1Q_XYI_fiducials L)
                (std1Q_XYI_germs L) maxLengths_1Q (mpi_gst_kwargs c) of
           Inl e \<Rightarrow> [GetRank c, Lib ''pygsti.do_long_sequence_gst'' (mpi_gst_kwargs c) False]
         | Inr res \<Rightarrow> [GetRank c, Lib ''pygsti.do_long_sequence_gst'' (mpi_gst_kwargs c) True,
                       GetRank c, GetRank c]) \<and>
      (Get_rank c \<noteq> 0 \<longrightarrow>
         fst (mpi_script L c (initial_world fs)) =
           map_sum id (Pair ds)
             (do_long_sequence_gst L ds gs (std1Q_XYI_fiducials L) (std1Q_XYI_fiducials L)
                (std1Q_XYI_germs L) maxLengths_1Q (mpi_gst_kwargs c)))) \<and>
   (fst (candidate_loop G germsel_globals (std2Q_XYICNOT_gs_target G) 4 0
           candidate_counts_2Q [] (initial_world fs)) = Inr cands \<and>
    remove_duplicates G
      (map (\<lambda>gl. [gl]) (germ_gates_keys G (std2Q_XYICNOT_gs_target G)) @ cands) = Inr avail \<longrightarrow>
      comm_events (trace (snd (germsel_script G c (initial_world fs)))) =
        (case build_up_breadth G (std2Q_XYICNOT_gs_target G) avail (germsel_kwargs G c) of
           Inl e \<Rightarrow> [Lib ''germsel.build_up_breadth'' (germsel_kwargs G c) False]
         | Inr germs \<Rightarrow>
             [Lib ''germsel.build_up_breadth'' (germsel_kwargs G c) True, GetRank c]) \<and>
      (Get_rank c \<noteq> 0 \<longrightarrow>
         fst (germsel_script G c (initial_world fs)) =
           build_up_breadth G (std2Q_XYICNOT_gs_target G) avail (germsel_kwargs G c)))"
proof (intro conjI)
  obtain r w' where s: "mpi_script L c (initial_world fs) = (r, w')"
    by (cases "mpi_script L c (initial_world fs)")
  from mpi_script_trace [OF s] s
  show "comm_events (trace (snd (mpi_script L c (initial_world fs)))) = [GetRank c] \<or>
    comm_events (trace (snd (mpi_script L c (initial_world fs)))) =
      [GetRank c, Lib ''pygsti.do_long_sequence_gst'' (mpi_gst_kwargs c) False] \<or>
    comm_events (trace (snd (mpi_script L c (initial_world fs)))) =
      [GetRank c, Lib ''pygsti.do_long_sequence_gst'' (mpi_gst_kwargs c) True,
       GetRank c, GetRank c]"
    by (auto simp: initial_world_def)
next
  show "map_of (mpi_gst_kwargs c) ''comm'' = Some (PyComm c)"
    by (rule mpi_gst_kwargs_comm)
next
  from germsel_script_behaviour [of G c "initial_world fs"]
  show "comm_events (trace (snd (germsel_script G c (initial_world fs)))) = [] \<or>
    comm_events (trace (snd (germsel_script G c (initial_world fs)))) =
      [Lib ''germsel.build_up_breadth'' (germsel_kwargs G c) False] \<or>
    comm_events (trace (snd (germsel_script G c (initial_world fs)))) =
      [Lib ''germsel.build_up_breadth'' (germsel_kwargs G c) True, GetRank c]"
    by (auto simp: initial_world_def)
next
  show "map_of (germsel_kwargs G c) ''comm'' = Some (PyComm c)"
    by (simp add: germsel_kwargs_def bub_kwargs_comm)
next
  show "set_all_parameterizations L (std1Q_XYI_gs_target L) ''TP'' = Inr gs \<and>
    fs mpi_dataset_file = Some dstext \<and> load_dataset L dstext = Inr ds \<longrightarrow>
      comm_events (trace (snd (mpi_script L c (initial_world fs)))) =
        (case do_long_sequence_gst L ds gs (std1Q_XYI_fiducials L) (std1Q_XYI_fiducials L)
                (std1Q_XYI_germs L) maxLengths_1Q (mpi_gst_kwargs c) of
           Inl e \<Rightarrow> [GetRank c, Lib ''pygsti.do_long_sequence_gst'' (mpi_gst_kwargs c) False]
         | Inr res \<Rightarrow> [GetRank c, Lib ''pygsti.do_long_sequence_gst'' (mpi_gst_kwargs c) True,
                       GetRank c, GetRank c]) \<and>
      (Get_rank c \<noteq> 0 \<longrightarrow>
         fst (mpi_script L c (initial_world fs)) =
           map_sum id (Pair ds)
             (do_long_sequence_gst L ds gs (std1Q_XYI_fiducials L) (std1Q_XYI_fiducials L)
                (std1Q_XYI_germs L) maxLengths_1Q (mpi_gst_kwargs c)))"
    using mpi_script_forward [of L gs fs dstext ds c] by blast
next
  show "fst (candidate_loop G germsel_globals (std2Q_XYICNOT_gs_target G) 4 0
           candidate_counts_2Q [] (initial_world fs)) = Inr cands \<and>
    remove_duplicates G
      (map (\<lambda>gl. [gl]) (germ_gates_keys G (std2Q_XYICNOT_gs_target G)) @ cands) = Inr avail \<longrightarrow>
      comm_events (trace (snd (germsel_script G c (initial_world fs)))) =
        (case build_up_breadth G (std2Q_XYICNOT_gs_target G) avail (germsel_kwargs G c) of
           Inl e \<Rightarrow> [Lib ''germsel.build_up_breadth'' (germsel_kwargs G c) False]
         | Inr germs \<Rightarrow>
             [Lib ''germsel.build_up_breadth'' (germsel_kwargs G c) True, GetRank c]) \<and>
      (Get_rank c \<noteq> 0 \<longrightarrow>
         fst (germsel_script G c (initial_world fs)) =
           build_up_breadth G (std2Q_XYICNOT_gs_target G) avail (germsel_kwargs G c))"
    using germsel_script_forward [of G fs cands avail c] by blast
qed

lemma candidate_loop_example:
  "fst (candidate_loop example_germlib germsel_globals (std2Q_XYICNOT_gs_target example_germlib)
          4 0 candidate_counts_2Q [] (initial_world example_mpi_files)) = Inr example_candidates"
  by (simp add: germsel_globals_def py_defs example_germlib_def candidate_counts_2Q_def
      initial_world_def example_candidates_def)

lemma remove_duplicates_example:
  "remove_duplicates example_germlib
     (map (\<lambda>gl. [gl]) (germ_gates_keys example_germlib (std2Q_XYICNOT_gs_target example_germlib))
      @ example_candidates) = Inr example_candidates"
  by (simp add: example_germlib_def example_candidates_def eval_nat_numeral)

lemma build_up_breadth_example:
  "build_up_breadth example_germlib (std2Q_XYICNOT_gs_target example_germlib)
     example_candidates (germsel_kwargs example_germlib rank1) = Inr [[''Gix''], [''Gcnot'']]"
  by (simp add: example_germlib_def example_candidates_def)

lemma mpi_steps_example:
  "set_all_parameterizations example_pygsti (std1Q_XYI_gs_target example_pygsti) ''TP'' = Inr ()"
  "example_mpi_files mpi_dataset_file = Some ''dataset''"
  "load_dataset example_pygsti ''dataset'' = Inr [([''Gi''], 1000)]"
  "do_long_sequence_gst example_pygsti [([''Gi''], 1000)] () (std1Q_XYI_fiducials example_pygsti)
     (std1Q_XYI_fiducials example_pygsti) (std1Q_XYI_germs example_pygsti) maxLengths_1Q
     (mpi_gst_kwargs rank1) = Inr ''results''"
  "Get_rank rank1 \<noteq> 0"
  by (simp_all add: example_pygsti_def example_mpi_files_def rank1_def)

theorem comm_pass_through_witness:
  "set_all_parameterizations example_pygsti (std1Q_XYI_gs_target example_pygsti) ''TP'' = Inr () \<and>
   example_mpi_files mpi_dataset_file = Some ''dataset'' \<and>
   load_dataset example_pygsti ''dataset'' = Inr [([''Gi''], 1000)] \<and>
   Get_rank rank1 \<noteq> 0 \<and>
   fst (candidate_loop example_germlib germsel_globals (std2Q_XYICNOT_gs_target example_germlib)
          4 0 candidate_counts_2Q [] (initial_world example_mpi_files)) = Inr example_candidates \<and>
   remove_duplicates example_germlib
     (map (\<lambda>gl. [gl]) (germ_gates_keys example_germlib (std2Q_XYICNOT_gs_target example_germlib))
      @ example_candidates) = Inr example_candidates \<and>
   comm_events (trace (snd (mpi_script example_pygsti rank1 (initial_world example_mpi_files)))) =
     [GetRank rank1, Lib ''pygsti.do_long_sequence_gst'' (mpi_gst_kwargs rank1) True,
      GetRank rank1, GetRank rank1] \<and>
   fst (mpi_script example_pygsti rank1 (initial_world example_mpi_files)) =
     Inr ([([''Gi''], 1000)], ''results'') \<and>
   comm_events
     (trace (snd (germsel_script example_germlib rank1 (initial_world example_mpi_files)))) =
     [Lib ''germsel.build_up_breadth'' (germsel_kwargs example_germlib rank1) True,
      GetRank rank1] \<and>
   fst (germsel_script example_germlib rank1 (initial_world example_mpi_files)) =
     Inr [[''Gix''], [''Gcnot'']]"
proof -
  note t = comm_pass_through [where L = example_pygsti and G = example_germlib and c = rank1
      and fs = example_mpi_files and gs = "()" and dstext = "''dataset''"
      and ds = "[([''Gi''], 1000)]" and cands = example_candidates
      and avail = example_candidates]
  note h = mpi_steps_example candidate_loop_example remove_duplicates_example
  from t h have
    m: "comm_events
          (trace (snd (mpi_script example_pygsti rank1 (initial_world example_mpi_files)))) =
        (case do_long_sequence_gst example_pygsti [([''Gi''], 1000)] ()
                (std1Q_XYI_fiducials example_pygsti) (std1Q_XYI_fiducials example_pygsti)
                (std1Q_XYI_germs example_pygsti) maxLengths_1Q (mpi_gst_kwargs rank1) of
           Inl e \<Rightarrow> [GetRank rank1,
                     Lib ''pygsti.do_long_sequence_gst'' (mpi_gst_kwargs rank1) False]
         | Inr res \<Rightarrow> [GetRank rank1,
                       Lib ''pygsti.do_long_sequence_gst'' (mpi_gst_kwargs rank1) True,
                       GetRank rank1, GetRank rank1])"
    and mr: "fst (mpi_script example_pygsti rank1 (initial_world example_mpi_files)) =
        map_sum id (Pair [([''Gi''], 1000)])
          (do_long_sequence_gst example_pygsti [([''Gi''], 1000)] ()
             (std1Q_XYI_fiducials example_pygsti) (std1Q_XYI_fiducials example_pygsti)
             (std1Q_XYI_germs example_pygsti) maxLengths_1Q (mpi_gst_kwargs rank1))"
    and g: "comm_events
          (trace (snd (germsel_script example_germlib rank1 (initial_world example_mpi_files)))) =
        (case build_up_breadth example_germlib (std2Q_XYICNOT_gs_target example_germlib)
                example_candidates (germsel_kwargs example_germlib rank1) of
           Inl e \<Rightarrow> [Lib ''germsel.build_up_breadth'' (germsel_kwargs example_germlib rank1) False]
         | Inr germs \<Rightarrow>
             [Lib ''germsel.build_up_breadth'' (germsel_kwargs example_germlib rank1) True,
              GetRank rank1])"
    and gr: "fst (germsel_script example_germlib rank1 (initial_world example_mpi_files)) =
        build_up_breadth example_germlib (std2Q_XYICNOT_gs_target example_germlib)
          example_candidates (germsel_kwargs example_germlib rank1)"
    by blast+
  from m mr g gr h build_up_breadth_example show ?thesis by simp
qed

subsection \<open>Who writes the output pickle\<close>

text \<open>
  Claim C9 says that in both scripts the process of rank 0 writes the output pickle once.
  The parallel-GST script does (it imports \<^verbatim>\<open>pickle\<close> inside the guarded branch, see
  \<^verbatim>\<open>mpi_script_frame\<close> for the other ranks). The germ-selection script has no
  \<^verbatim>\<open>import pickle\<close>: run by the process of rank 0 on a library whose calls all succeed, it
  raises \<^verbatim>\<open>NameError\<close> in the guarded branch and the file system stays empty.
\<close>

theorem germsel_rank0_name_error:
  "fst (germsel_script example_germlib rank0 (initial_world Map.empty)) =
     Inl (NameError ''pickle'') \<and>
   files (snd (germsel_script example_germlib rank0 (initial_world Map.empty))) = Map.empty"
  by (simp add: germsel_script_def do_greedy_germsel_def Let_def germsel_globals_def py_defs
      example_germlib_def candidate_counts_2Q_def initial_world_def rank0_def)

end
